theory Spec2Isabelle
  imports Complex_Main
begin

section \<open>NetTool plugin runtime\<close>

text \<open>
  A shallow embedding of the plugin runtime of NetTool: the legacy compatibility adapter
  (\<^verbatim>\<open>app/plugins/types/compat.go\<close>), the plugin manager
  (\<^verbatim>\<open>app/plugins/plugin_manager.go\<close>), the plugin loader and the dynamic plugin
  (\<^verbatim>\<open>plugin_loader.go\<close>), the loader helper
  (\<^verbatim>\<open>app/plugins/plugin_loader_helper.go\<close>) and the iteration driver
  (\<^verbatim>\<open>app/plugins/cli/iterable_cli.go\<close>).

  Conventions. A Go \<^verbatim>\<open>error\<close> is modelled by its message: \<open>None\<close> is \<^verbatim>\<open>nil\<close>,
  \<open>Some m\<close> an error whose \<^verbatim>\<open>Error()\<close> is \<open>m\<close>. A value of type \<^verbatim>\<open>interface{}\<close>
  that the code only passes on is an element of a type variable. A slice is a list (a
  \<^verbatim>\<open>nil\<close> slice and an empty one are both \<open>[]\<close>), a \<^verbatim>\<open>map[string]T\<close> is a
  partial function from strings. Whatever the code asks of the operating system (files,
  processes, the clock, standard input) is a parameter of the model.
\<close>

type_synonym go_error = "string option"

subsection \<open>The data model (package types)\<close>

type_synonym ParameterType = string

text \<open>\<^verbatim>\<open>types.Option\<close>, an option of a select parameter.\<close>

record 'v PluginOption =
  Value :: 'v
  Label :: string

text \<open>\<^verbatim>\<open>types.Parameter\<close>, the legacy parameter. The pointers \<^verbatim>\<open>*float64\<close> are
  optional numbers; the adapter copies them and never reads them, so the number type is a
  type variable.\<close>

record ('v, 'f) Parameter =
  ID :: string
  Name :: string
  Description :: string
  Type :: ParameterType
  Required :: bool
  Default :: 'v
  Options :: "'v PluginOption list"
  Min :: "'f option"
  Max :: "'f option"
  Step :: "'f option"

text \<open>\<^verbatim>\<open>types.LegacyPlugin\<close>.\<close>

record ('v, 'f) LegacyPlugin =
  ID :: string
  Name :: string
  Description :: string
  Icon :: string
  Parameters :: "('v, 'f) Parameter list"

text \<open>\<^verbatim>\<open>types.PluginParam\<close>.\<close>

record ('v, 'f) PluginParam =
  ID :: string
  Name :: string
  Description :: string
  Type :: ParameterType
  Required :: bool
  Default :: 'v
  Options :: "'v PluginOption list"
  Min :: "'f option"
  Max :: "'f option"
  Step :: "'f option"
  CanIterate :: bool

text \<open>\<^verbatim>\<open>types.PluginDefinition\<close>.\<close>

record ('v, 'f) PluginDefinition =
  ID :: string
  Name :: string
  Description :: string
  Version :: string
  Author :: string
  License :: string
  Icon :: string
  Parameters :: "('v, 'f) PluginParam list"
  Requires :: "string list"
  Repository :: string

subsection \<open>The legacy compatibility adapter\<close>

text \<open>The body of the conversion loop of \<^verbatim>\<open>CompatPlugin\<close>: the composite literal names
  ten fields, \<^verbatim>\<open>CanIterate\<close> keeps Go's zero value.\<close>

definition CompatPlugin_param :: "('v, 'f) Parameter \<Rightarrow> ('v, 'f) PluginParam" where
  "CompatPlugin_param param =
     \<lparr> PluginParam.ID = Parameter.ID param,
       PluginParam.Name = Parameter.Name param,
       PluginParam.Description = Parameter.Description param,
       PluginParam.Type = Parameter.Type param,
       PluginParam.Required = Parameter.Required param,
       PluginParam.Default = Parameter.Default param,
       PluginParam.Options = Parameter.Options param,
       PluginParam.Min = Parameter.Min param,
       PluginParam.Max = Parameter.Max param,
       PluginParam.Step = Parameter.Step param,
       PluginParam.CanIterate = False \<rparr>"

text \<open>\<^verbatim>\<open>CompatPlugin\<close>: \<^verbatim>\<open>params[i]\<close> is filled for every index \<open>i\<close> of
  \<^verbatim>\<open>p.Parameters\<close>, which is \<open>map\<close>. \<^verbatim>\<open>Requires\<close> and \<^verbatim>\<open>Repository\<close> are
  not named in the literal.\<close>

definition CompatPlugin :: "('v, 'f) LegacyPlugin \<Rightarrow> ('v, 'f) PluginDefinition" where
  "CompatPlugin p =
     \<lparr> PluginDefinition.ID = LegacyPlugin.ID p,
       PluginDefinition.Name = LegacyPlugin.Name p,
       PluginDefinition.Description = LegacyPlugin.Description p,
       PluginDefinition.Version = ''0.0.0'',
       PluginDefinition.Author = ''Unknown'',
       PluginDefinition.License = ''Unknown'',
       PluginDefinition.Icon = LegacyPlugin.Icon p,
       PluginDefinition.Parameters = map CompatPlugin_param (LegacyPlugin.Parameters p),
       PluginDefinition.Requires = [],
       PluginDefinition.Repository = [] \<rparr>"

text \<open>\<^verbatim>\<open>LegacyPluginWrapper.GetDefinition\<close>: the same loop (the conversion
  \<^verbatim>\<open>ParameterType(p.Type)\<close> is the identity), other constants for the new fields.\<close>

definition LegacyPluginWrapper_param :: "('v, 'f) Parameter \<Rightarrow> ('v, 'f) PluginParam" where
  "LegacyPluginWrapper_param p =
     \<lparr> PluginParam.ID = Parameter.ID p,
       PluginParam.Name = Parameter.Name p,
       PluginParam.Description = Parameter.Description p,
       PluginParam.Type = Parameter.Type p,
       PluginParam.Required = Parameter.Required p,
       PluginParam.Default = Parameter.Default p,
       PluginParam.Options = Parameter.Options p,
       PluginParam.Min = Parameter.Min p,
       PluginParam.Max = Parameter.Max p,
       PluginParam.Step = Parameter.Step p,
       PluginParam.CanIterate = False \<rparr>"

definition LegacyPluginWrapper_GetDefinition ::
  "('v, 'f) LegacyPlugin \<Rightarrow> ('v, 'f) PluginDefinition" where
  "LegacyPluginWrapper_GetDefinition legacyPlugin =
     \<lparr> PluginDefinition.ID = LegacyPlugin.ID legacyPlugin,
       PluginDefinition.Name = LegacyPlugin.Name legacyPlugin,
       PluginDefinition.Description = LegacyPlugin.Description legacyPlugin,
       PluginDefinition.Version = ''1.0.0'',
       PluginDefinition.Author = ''NetTool'',
       PluginDefinition.License = ''MIT'',
       PluginDefinition.Icon = LegacyPlugin.Icon legacyPlugin,
       PluginDefinition.Parameters =
         map LegacyPluginWrapper_param (LegacyPlugin.Parameters legacyPlugin),
       PluginDefinition.Requires = [],
       PluginDefinition.Repository = [] \<rparr>"

text \<open>What the claim compares, parameter by parameter: the ten fields a legacy parameter
  has.\<close>

definition same_parameter :: "('v, 'f) Parameter \<Rightarrow> ('v, 'f) PluginParam \<Rightarrow> bool" where
  "same_parameter p q \<longleftrightarrow>
     PluginParam.ID q = Parameter.ID p \<and>
     PluginParam.Name q = Parameter.Name p \<and>
     PluginParam.Description q = Parameter.Description p \<and>
     PluginParam.Type q = Parameter.Type p \<and>
     PluginParam.Required q = Parameter.Required p \<and>
     PluginParam.Default q = Parameter.Default p \<and>
     PluginParam.Options q = Parameter.Options p \<and>
     PluginParam.Min q = Parameter.Min p \<and>
     PluginParam.Max q = Parameter.Max p \<and>
     PluginParam.Step q = Parameter.Step p"

subsection \<open>The plugin manager (package plugins)\<close>

text \<open>\<^verbatim>\<open>plugins.Parameter\<close>, the manager's own parameter type (its \<^verbatim>\<open>Option\<close> has
  the fields of \<^verbatim>\<open>types.Option\<close>).\<close>

record ('v, 'f) ManagerParameter =
  ID :: string
  Name :: string
  Description :: string
  Type :: ParameterType
  Required :: bool
  Default :: 'v
  Options :: "'v PluginOption list"
  Min :: "'f option"
  Max :: "'f option"
  Step :: "'f option"
  CanIterate :: bool

text \<open>\<^verbatim>\<open>plugins.Plugin\<close>. The executor \<^verbatim>\<open>Execute\<close> may build, start processes and
  touch files: it is a function of the parameter mapping and of the state \<open>'w\<close> of
  everything outside the manager, and returns Go's pair (result, error) with the new
  state. The result is \<open>None\<close> for \<^verbatim>\<open>nil\<close>. The function value is taken to be
  non-nil, as every plugin that \<^verbatim>\<open>RefreshPlugins\<close> stores has it.\<close>

record ('v, 'f, 'r, 'w) Plugin =
  ID :: string
  Name :: string
  Description :: string
  Version :: string
  Author :: string
  License :: string
  Icon :: string
  Parameters :: "('v, 'f) ManagerParameter list"
  Execute :: "(string \<rightharpoonup> 'v) \<Rightarrow> 'w \<Rightarrow> ('r option \<times> go_error) \<times> 'w"

text \<open>\<^verbatim>\<open>plugins.PluginManager\<close>: the map from identifiers to plugins (the lock
  guards the map and has no part in a single call).\<close>

record ('v, 'f, 'r, 'w) PluginManager =
  plugins :: "string \<rightharpoonup> ('v, 'f, 'r, 'w) Plugin"

text \<open>\<^verbatim>\<open>GetPlugin\<close> returns \<^verbatim>\<open>(nil, errors.New("plugin not found"))\<close> or
  \<^verbatim>\<open>(plugin, nil)\<close>: a sum.\<close>

definition GetPlugin ::
  "('v, 'f, 'r, 'w) PluginManager \<Rightarrow> string \<Rightarrow> string + ('v, 'f, 'r, 'w) Plugin" where
  "GetPlugin pm id' =
     (case plugins pm id' of
        None \<Rightarrow> Inl ''plugin not found''
      | Some plugin \<Rightarrow> Inr plugin)"

text \<open>The validation loop of \<^verbatim>\<open>RunPlugin\<close> over \<^verbatim>\<open>plugin.Parameters\<close>: the error
  it returns at the first required parameter that is not a key of \<^verbatim>\<open>params\<close>, or
  \<open>None\<close> when the loop runs to its end.\<close>

fun validate_parameters ::
  "('v, 'f) ManagerParameter list \<Rightarrow> (string \<rightharpoonup> 'v) \<Rightarrow> go_error" where
  "validate_parameters [] params = None"
| "validate_parameters (param # rest) params =
     (if ManagerParameter.Required param then
        (if params (ManagerParameter.ID param) = None
         then Some (''missing required parameter: '' @ ManagerParameter.ID param)
         else validate_parameters rest params)
      else validate_parameters rest params)"

text \<open>\<^verbatim>\<open>RunPlugin\<close>. The state \<open>w\<close> changes only through \<^verbatim>\<open>plugin.Execute\<close>.\<close>

definition RunPlugin ::
  "('v, 'f, 'r, 'w) PluginManager \<Rightarrow> string \<Rightarrow> (string \<rightharpoonup> 'v) \<Rightarrow> 'w
     \<Rightarrow> ('r option \<times> go_error) \<times> 'w" where
  "RunPlugin pm id' params w =
     (case GetPlugin pm id' of
        Inl err \<Rightarrow> ((None, Some err), w)
      | Inr plugin \<Rightarrow>
          (case validate_parameters (Plugin.Parameters plugin) params of
             Some err \<Rightarrow> ((None, Some err), w)
           | None \<Rightarrow> Plugin.Execute plugin params w))"

text \<open>The parameter a validation error names: the first one, in the order of the
  definition, that is required and absent from the mapping.\<close>

definition missing_required ::
  "(string \<rightharpoonup> 'v) \<Rightarrow> ('v, 'f) ManagerParameter \<Rightarrow> bool" where
  "missing_required params param \<longleftrightarrow>
     ManagerParameter.Required param \<and> params (ManagerParameter.ID param) = None"

text \<open>A plugin for the example of the specification: \<^verbatim>\<open>ping\<close> with the required
  parameter \<^verbatim>\<open>host\<close>, and an executor that counts its invocations in the state.\<close>

definition host_parameter :: "(string, real) ManagerParameter" where
  "host_parameter =
     \<lparr> ManagerParameter.ID = ''host'', ManagerParameter.Name = ''Host'',
       ManagerParameter.Description = ''Host to reach'',
       ManagerParameter.Type = ''string'', ManagerParameter.Required = True,
       ManagerParameter.Default = [], ManagerParameter.Options = [],
       ManagerParameter.Min = None, ManagerParameter.Max = None,
       ManagerParameter.Step = None, ManagerParameter.CanIterate = False \<rparr>"

definition counting_ping :: "(string, real, string, nat) Plugin" where
  "counting_ping =
     \<lparr> Plugin.ID = ''ping'', Plugin.Name = ''Ping'',
       Plugin.Description = ''Reachability check'', Plugin.Version = ''1.0.0'',
       Plugin.Author = [], Plugin.License = [], Plugin.Icon = [],
       Plugin.Parameters = [host_parameter],
       Plugin.Execute = (\<lambda>params n. ((Some ''pong'', None), Suc n)) \<rparr>"

definition ping_manager :: "(string, real, string, nat) PluginManager" where
  "ping_manager = \<lparr> plugins = [''ping'' \<mapsto> counting_ping] \<rparr>"

subsection \<open>The bandwidth test of the loader helper\<close>



text \<open>The payloads that \<^verbatim>\<open>json.Unmarshal\<close> fills, nested structs flattened.\<close>

record libre_payload =
  Timestamp :: string
  Download :: real
  Upload :: real
  Ping :: real
  Jitter :: real
  Server_Name :: string
  Server_Location :: string
  Server_Country :: string
  Server_Sponsor :: string

record ookla_payload =
  Type :: string
  Timestamp :: string
  Ping_Latency :: real
  Ping_Jitter :: real
  Download_Bandwidth :: real
  Upload_Bandwidth :: real
  PacketLoss :: real
  ISP :: string
  Interface_InternalIP :: string
  Interface_ExternalIP :: string

record legacy_payload =
  Download :: real
  Upload :: real
  Ping :: real
  PacketLoss :: real
  Timestamp :: string
  Server_Host :: string
  Server_Sponsor :: string
  Server_Name :: string



text \<open>\<^verbatim>\<open>strings.TrimSpace\<close> removes the white space of Unicode from both ends of a
  string: the runes U+0009 to U+000D, U+0020, U+0085, U+00A0, U+1680, U+2000 to U+200A,
  U+2028, U+2029, U+202F, U+205F and U+3000. A Go string is a sequence of bytes holding
  UTF-8, so \<^verbatim>\<open>white_space\<close> lists the encodings of these runes; a byte that starts none of
  them, also one of an invalid encoding, ends the trimming.\<close>

definition white_space :: "string list" where
  "white_space =
     [[CHR 0x09], [CHR 0x0A], [CHR 0x0B], [CHR 0x0C], [CHR 0x0D], [CHR 0x20],
      [CHR 0xC2, CHR 0x85], [CHR 0xC2, CHR 0xA0],
      [CHR 0xE1, CHR 0x9A, CHR 0x80],
      [CHR 0xE2, CHR 0x80, CHR 0x80], [CHR 0xE2, CHR 0x80, CHR 0x81],
      [CHR 0xE2, CHR 0x80, CHR 0x82], [CHR 0xE2, CHR 0x80, CHR 0x83],
      [CHR 0xE2, CHR 0x80, CHR 0x84], [CHR 0xE2, CHR 0x80, CHR 0x85],
      [CHR 0xE2, CHR 0x80, CHR 0x86], [CHR 0xE2, CHR 0x80, CHR 0x87],
      [CHR 0xE2, CHR 0x80, CHR 0x88], [CHR 0xE2, CHR 0x80, CHR 0x89],
      [CHR 0xE2, CHR 0x80, CHR 0x8A],
      [CHR 0xE2, CHR 0x80, CHR 0xA8], [CHR 0xE2, CHR 0x80, CHR 0xA9],
      [CHR 0xE2, CHR 0x80, CHR 0xAF], [CHR 0xE2, CHR 0x81, CHR 0x9F],
      [CHR 0xE3, CHR 0x80, CHR 0x80]]"

text \<open>The number of bytes of the rune of \<^verbatim>\<open>runes\<close> that \<^verbatim>\<open>s\<close> starts with, 0 when there is
  none.\<close>

definition rune_width :: "string list \<Rightarrow> string \<Rightarrow> nat" where
  "rune_width runes s =
     (case find (\<lambda>r. r \<noteq> [] \<and> take (length r) s = r) runes of
        Some r \<Rightarrow> length r
      | None \<Rightarrow> 0)"

function trim_runes :: "string list \<Rightarrow> string \<Rightarrow> string" where
  "trim_runes runes s =
     (if rune_width runes s = 0 then s
      else trim_runes runes (drop (rune_width runes s) s))"
  by pat_completeness auto
termination
proof (relation "measure (\<lambda>(runes, s). length s)")
  show "wf (measure (\<lambda>(runes, s). length s))" by simp
next
  fix runes :: "string list" and s :: string
  assume w: "rune_width runes s \<noteq> 0"
  then obtain r where r: "find (\<lambda>r. r \<noteq> [] \<and> take (length r) s = r) runes = Some r"
    by (auto simp: rune_width_def split: option.splits)
  then have "r \<noteq> []" "take (length r) s = r"
    by (auto simp: find_Some_iff)
  then have "s \<noteq> []" by auto
  with w show "((runes, drop (rune_width runes s) s), (runes, s))
      \<in> measure (\<lambda>(runes, s). length s)"
    by simp
qed

declare trim_runes.simps [simp del]

text \<open>The left end is trimmed rune by rune; the right end likewise, on the reversed bytes
  against the reversed encodings.\<close>

definition TrimSpace :: "string \<Rightarrow> string" where
  "TrimSpace s = rev (trim_runes (map rev white_space) (rev (trim_runes white_space s)))"













subsection \<open>The plugin loader and the dynamic plugin\<close>

text \<open>The outcome of \<^verbatim>\<open>os.Stat\<close>, as far as the code looks at it: no error, an error
  for which \<^verbatim>\<open>os.IsNotExist\<close> holds, or another error (each with its message).\<close>

datatype stat_result = StatOk | StatNotExist string | StatOther string

fun IsNotExist :: "stat_result \<Rightarrow> bool" where
  "IsNotExist (StatNotExist m) = True"
| "IsNotExist StatOk = False"
| "IsNotExist (StatOther m) = False"

fun stat_error :: "stat_result \<Rightarrow> go_error" where
  "stat_error StatOk = None"
| "stat_error (StatNotExist m) = Some m"
| "stat_error (StatOther m) = Some m"

text \<open>An entry of \<^verbatim>\<open>os.ReadDir\<close>: its name and whether it is a directory.\<close>

datatype dir_entry = DirEntry string bool

fun entry_Name :: "dir_entry \<Rightarrow> string" where
  "entry_Name (DirEntry name isDir) = name"

fun entry_IsDir :: "dir_entry \<Rightarrow> bool" where
  "entry_IsDir (DirEntry name isDir) = isDir"

text \<open>What the loader asks of the operating system and of the libraries:
  \<^verbatim>\<open>filepath.Join\<close> of two elements, \<^verbatim>\<open>os.Stat\<close>, \<^verbatim>\<open>os.ReadFile\<close> and
  \<^verbatim>\<open>os.ReadDir\<close> (an error or the content), \<^verbatim>\<open>filepath.Glob\<close>,
  \<^verbatim>\<open>json.Unmarshal\<close> into a fresh \<^verbatim>\<open>types.PluginDefinition\<close> (an error or the
  definition), and \<^verbatim>\<open>cmd.CombinedOutput\<close> of a command (name, arguments, working
  directory), which returns the output and the error.\<close>

record ('v, 'f) os_env =
  Join2 :: "string \<Rightarrow> string \<Rightarrow> string"
  Stat :: "string \<Rightarrow> stat_result"
  ReadFile :: "string \<Rightarrow> string + string"
  ReadDir :: "string \<Rightarrow> string + dir_entry list"
  Glob :: "string \<Rightarrow> string + string list"
  Unmarshal :: "string \<Rightarrow> string + ('v, 'f) PluginDefinition"
  CombinedOutput :: "string \<Rightarrow> string list \<Rightarrow> string \<Rightarrow> string \<times> go_error"

text \<open>\<^verbatim>\<open>plugins.DynamicPlugin\<close>. The field \<^verbatim>\<open>definition\<close>, a pointer that is
  \<^verbatim>\<open>nil\<close> until a definition is cached, is \<open>definition_ptr\<close> (the mutex is left
  out).\<close>

record ('v, 'f) DynamicPlugin =
  pluginID :: string
  pluginDir :: string
  definition_ptr :: "('v, 'f) PluginDefinition option"
  isIterable :: bool

text \<open>\<^verbatim>\<open>PluginLoader.loadPlugin\<close>: the only place that makes a dynamic plugin.\<close>

definition loadPlugin ::
  "('v, 'f) os_env \<Rightarrow> string \<Rightarrow> string \<Rightarrow> string + ('v, 'f) DynamicPlugin" where
  "loadPlugin env pluginDir' pluginID' =
     (if IsNotExist (Stat env (Join2 env pluginDir' ''plugin.go''))
      then Inl (''plugin.go not found for '' @ pluginID')
      else Inr \<lparr> pluginID = pluginID', pluginDir = pluginDir',
                 definition_ptr = None, isIterable = False \<rparr>)"

text \<open>The definitions \<^verbatim>\<open>GetDefinition\<close> makes up when the command fails or its
  output does not parse: the fields the literal does not name are Go's zero values.\<close>

definition error_definition :: "string \<Rightarrow> string \<Rightarrow> ('v, 'f) PluginDefinition" where
  "error_definition pluginID' description =
     \<lparr> PluginDefinition.ID = pluginID',
       PluginDefinition.Name = pluginID',
       PluginDefinition.Description = description,
       PluginDefinition.Version = ''0.0.0'',
       PluginDefinition.Author = [],
       PluginDefinition.License = [],
       PluginDefinition.Icon = ''exclamation-triangle'',
       PluginDefinition.Parameters = [],
       PluginDefinition.Requires = [],
       PluginDefinition.Repository = [] \<rparr>"

text \<open>The second half of \<^verbatim>\<open>GetDefinition\<close>, from
  \<^verbatim>\<open>exec.Command("go", "run", "plugin.go", "--definition")\<close> on: the definition
  returned and the plugin with its cache.\<close>

definition GetDefinition_command ::
  "('v, 'f) os_env \<Rightarrow> ('v, 'f) DynamicPlugin
     \<Rightarrow> ('v, 'f) PluginDefinition \<times> ('v, 'f) DynamicPlugin" where
  "GetDefinition_command env p =
     (case CombinedOutput env ''go'' [''run'', ''plugin.go'', ''--definition''] (pluginDir p) of
        (output, Some err) \<Rightarrow>
          (error_definition (pluginID p) (''Error loading plugin: '' @ err), p)
      | (output, None) \<Rightarrow>
          (case Unmarshal env output of
             Inl err \<Rightarrow>
               (error_definition (pluginID p) (''Error parsing definition: '' @ err), p)
           | Inr definition' \<Rightarrow>
               (definition', p\<lparr>definition_ptr := Some definition'\<rparr>)))"

text \<open>\<^verbatim>\<open>DynamicPlugin.GetDefinition\<close>.\<close>

definition GetDefinition ::
  "('v, 'f) os_env \<Rightarrow> ('v, 'f) DynamicPlugin
     \<Rightarrow> ('v, 'f) PluginDefinition \<times> ('v, 'f) DynamicPlugin" where
  "GetDefinition env p =
     (case definition_ptr p of
        Some cached \<Rightarrow> (cached, p)
      | None \<Rightarrow>
          (case ReadFile env (Join2 env (pluginDir p) ''plugin.json'') of
             Inr jsonData \<Rightarrow>
               (case Unmarshal env jsonData of
                  Inr definition' \<Rightarrow> (definition', p\<lparr>definition_ptr := Some definition'\<rparr>)
                | Inl err \<Rightarrow> GetDefinition_command env p)
           | Inl err \<Rightarrow> GetDefinition_command env p))"

text \<open>The plugin after \<open>n\<close> calls of \<^verbatim>\<open>GetDefinition\<close>.\<close>

fun after_calls ::
  "('v, 'f) os_env \<Rightarrow> nat \<Rightarrow> ('v, 'f) DynamicPlugin \<Rightarrow> ('v, 'f) DynamicPlugin" where
  "after_calls env 0 p = p"
| "after_calls env (Suc n) p = after_calls env n (snd (GetDefinition env p))"

text \<open>The definition the specification describes, in its words: the parsed manifest
  if \<^verbatim>\<open>plugin.json\<close> is readable and parses; otherwise the parsed output of the
  plugin's describe mode; and if that fails, a minimal definition whose description
  embeds the reason.\<close>

definition staged_definition ::
  "('v, 'f) os_env \<Rightarrow> string \<Rightarrow> string \<Rightarrow> ('v, 'f) PluginDefinition" where
  "staged_definition env dir ident =
     (let manifest =
            (case ReadFile env (Join2 env dir ''plugin.json'') of
               Inl err \<Rightarrow> None
             | Inr content \<Rightarrow>
                 (case Unmarshal env content of Inl err \<Rightarrow> None | Inr d \<Rightarrow> Some d));
          described = CombinedOutput env ''go'' [''run'', ''plugin.go'', ''--definition''] dir
      in case manifest of
           Some d \<Rightarrow> d
         | None \<Rightarrow>
             (case snd described of
                Some reason \<Rightarrow>
                  \<lparr> PluginDefinition.ID = ident, PluginDefinition.Name = ident,
                    PluginDefinition.Description = ''Error loading plugin: '' @ reason,
                    PluginDefinition.Version = ''0.0.0'', PluginDefinition.Author = [],
                    PluginDefinition.License = [],
                    PluginDefinition.Icon = ''exclamation-triangle'',
                    PluginDefinition.Parameters = [], PluginDefinition.Requires = [],
                    PluginDefinition.Repository = [] \<rparr>
              | None \<Rightarrow>
                  (case Unmarshal env (fst described) of
                     Inr d \<Rightarrow> d
                   | Inl reason \<Rightarrow>
                       \<lparr> PluginDefinition.ID = ident, PluginDefinition.Name = ident,
                         PluginDefinition.Description = ''Error parsing definition: '' @ reason,
                         PluginDefinition.Version = ''0.0.0'', PluginDefinition.Author = [],
                         PluginDefinition.License = [],
                         PluginDefinition.Icon = ''exclamation-triangle'',
                         PluginDefinition.Parameters = [], PluginDefinition.Requires = [],
                         PluginDefinition.Repository = [] \<rparr>)))"

text \<open>The cache of a dynamic plugin is consistent with an environment when it is empty
  or holds the definition the environment gives.\<close>

definition cache_consistent :: "('v, 'f) os_env \<Rightarrow> ('v, 'f) DynamicPlugin \<Rightarrow> bool" where
  "cache_consistent env p \<longleftrightarrow>
     definition_ptr p = None \<or>
     definition_ptr p = Some (staged_definition env (pluginDir p) (pluginID p))"

text \<open>An environment in which the manifest of a plugin cannot be read and
  \<^verbatim>\<open>go run\<close> fails.\<close>

definition broken_env :: "(string, real) os_env" where
  "broken_env =
     \<lparr> Join2 = (\<lambda>a b. a @ ''/'' @ b),
       Stat = (\<lambda>path. StatOk),
       ReadFile = (\<lambda>path. Inl (''open '' @ path @ '': permission denied'')),
       ReadDir = (\<lambda>path. Inr []),
       Glob = (\<lambda>pattern. Inr []),
       Unmarshal = (\<lambda>data. Inl ''unexpected end of JSON input''),
       CombinedOutput = (\<lambda>name args dir. ([], Some ''exit status 1'')) \<rparr>"

subsection \<open>The iteration driver (package cli)\<close>

text \<open>\<^verbatim>\<open>types.IterablePlugin\<close>, by its methods. Within one run the driver calls
  \<^verbatim>\<open>ExecuteIteration\<close> once for each count \<open>0, 1, 2, \<dots>\<close> in turn, so what the call
  with count \<open>i\<close> returns, whatever state the plugin keeps, is a function of \<open>i\<close>.\<close>

record ('v, 'r) IterablePlugin =
  SupportsIteration :: bool
  Execute :: "(string \<rightharpoonup> 'v) \<Rightarrow> 'r \<times> go_error"
  ExecuteIteration :: "(string \<rightharpoonup> 'v) \<Rightarrow> int \<Rightarrow> 'r \<times> bool \<times> go_error"

text \<open>Modelled from the spec: the declaration of \<^verbatim>\<open>types.IterationResult\<close> is not among
  the sources. The specification gives it an iteration index, a result value, a
  continuation flag, an optional error text and a timestamp; the composite literal in
  \<^verbatim>\<open>Run\<close> names the fields.\<close>

record ('r, 't) IterationResult =
  IterationCount :: int
  Result :: 'r
  ContinueIteration :: bool
  Timestamp :: 't
  Error :: string

text \<open>\<^verbatim>\<open>cli.IterableCLI\<close>. Counts are Go's \<^verbatim>\<open>int\<close>, modelled as unbounded integers
  (a run does not reach \<open>2\<^sup>6\<^sup>3\<close> iterations); the delay is a \<^verbatim>\<open>time.Duration\<close>.\<close>

record ('v, 'r, 't) IterableCLI =
  Plugin :: "('v, 'r) IterablePlugin"
  Params :: "string \<rightharpoonup> 'v"
  MaxIterations :: int
  IterationDelay :: int
  Results :: "('r, 't) IterationResult list"
  RunInTerminal :: bool

text \<open>What the driver asks of its environment: the clock when the result of iteration
  \<open>i\<close> is recorded, what \<^verbatim>\<open>reader.ReadString('\n')\<close> returns on standard input at the
  prompt after \<open>i\<close> iterations (the line and the error), and the two JSON encodings of
  \<^verbatim>\<open>printResult\<close> (an error or the text): \<^verbatim>\<open>json.MarshalIndent\<close> of the result,
  and \<^verbatim>\<open>json.Marshal\<close> of the map with the count, the result and the time.\<close>

record ('r, 't) cli_env =
  TimeNow :: "int \<Rightarrow> 't"
  ReadString :: "int \<Rightarrow> string \<times> go_error"
  MarshalIndent :: "'r \<Rightarrow> string + string"
  MarshalLine :: "int \<Rightarrow> 'r \<Rightarrow> string + string"

text \<open>What a run does that can be observed: a call of \<^verbatim>\<open>ExecuteIteration\<close> with a
  count, a text written by \<^verbatim>\<open>printResult\<close> (the terminal block of an iteration, or
  one line of JSON), a prompt of \<^verbatim>\<open>promptContinueIteration\<close> with its read of standard
  input, and a \<^verbatim>\<open>time.Sleep\<close>. The other lines \<^verbatim>\<open>Printf\<close> writes are left out.\<close>

datatype written = TerminalBlock int string | JSONLine string

datatype event = Dispatched int | Printed written | Prompted int | Slept int

text \<open>The \<^verbatim>\<open>break\<close> that left the loop, in the order of the source.\<close>

datatype halt = MaxIterationsReached | NotContinuing | IterationError | StoppedByUser

text \<open>\<^verbatim>\<open>strings.ToLower\<close> on the letters of ASCII. Go lowers the letters of other
  scripts too; they are left as they are here, since none of them lowers to \<^verbatim>\<open>y\<close>, \<^verbatim>\<open>e\<close>
  or \<^verbatim>\<open>s\<close> or to white space, so that \<^verbatim>\<open>promptContinueIteration\<close> below answers the
  same.\<close>

definition ToLower_char :: "char \<Rightarrow> char" where
  "ToLower_char c =
     (if 65 \<le> (of_char c :: nat) \<and> (of_char c :: nat) \<le> 90
      then char_of ((of_char c :: nat) + 32) else c)"

definition ToLower :: "string \<Rightarrow> string" where
  "ToLower s = map ToLower_char s"

text \<open>\<^verbatim>\<open>promptContinueIteration\<close>: a read error answers no; otherwise the answer is yes
  exactly for the lines that are \<^verbatim>\<open>y\<close> or \<^verbatim>\<open>yes\<close> once lowered and trimmed.\<close>

definition promptContinueIteration :: "('r, 't) cli_env \<Rightarrow> int \<Rightarrow> bool" where
  "promptContinueIteration env iterationCount =
     (case ReadString env iterationCount of
        (response, Some err) \<Rightarrow> False
      | (response, None) \<Rightarrow>
          TrimSpace (ToLower response) = ''y'' \<or> TrimSpace (ToLower response) = ''yes'')"

text \<open>\<^verbatim>\<open>printResult\<close>: what it writes, if anything, and the error it returns.\<close>

definition printResult ::
  "('v, 'r, 't) IterableCLI \<Rightarrow> ('r, 't) cli_env \<Rightarrow> 'r \<Rightarrow> int \<Rightarrow> event list \<times> go_error" where
  "printResult cli env result iterationCount =
     (if RunInTerminal cli then
        (case MarshalIndent env result of
           Inl err \<Rightarrow> ([], Some err)
         | Inr resultJSON \<Rightarrow> ([Printed (TerminalBlock iterationCount resultJSON)], None))
      else
        (case MarshalLine env iterationCount result of
           Inl err \<Rightarrow> ([], Some err)
         | Inr resultJSON \<Rightarrow> ([Printed (JSONLine resultJSON)], None)))"

text \<open>The state of the loop of \<^verbatim>\<open>Run\<close>: the count, \<^verbatim>\<open>cli.Results\<close>, and what has
  been observed so far.\<close>

record ('r, 't) loop_state =
  iterationCount :: int
  results :: "('r, 't) IterationResult list"
  observed :: "event list"

text \<open>One pass through the body of the loop, after the check of the maximum: either a
  \<^verbatim>\<open>break\<close>, or the state at the next check.\<close>

datatype ('r, 't) pass = Break halt "('r, 't) loop_state" | Next "('r, 't) loop_state"

text \<open>The state a pass ends in, and the \<^verbatim>\<open>break\<close> it took, if any.\<close>

fun pass_state :: "('r, 't) pass \<Rightarrow> ('r, 't) loop_state" where
  "pass_state (Break reason s) = s"
| "pass_state (Next s) = s"

fun pass_halt :: "('r, 't) pass \<Rightarrow> halt option" where
  "pass_halt (Break reason s) = Some reason"
| "pass_halt (Next s) = None"

definition loop_body ::
  "('v, 'r, 't) IterableCLI \<Rightarrow> ('r, 't) cli_env \<Rightarrow> ('r, 't) loop_state \<Rightarrow> ('r, 't) pass" where
  "loop_body cli env s =
     (let count = iterationCount s;
          ret = ExecuteIteration (Plugin cli) (Params cli) count;
          result = fst ret;
          continueIteration = fst (snd ret);
          err = snd (snd ret);
          iterationResult =
            \<lparr> IterationCount = count, Result = result,
              ContinueIteration = continueIteration, Timestamp = TimeNow env count,
              Error = (case err of None \<Rightarrow> [] | Some m \<Rightarrow> m) \<rparr>;
          s1 = s\<lparr> results := results s @ [iterationResult],
                 observed := observed s @ [Dispatched count]
                   @ fst (printResult cli env result count) \<rparr>
      in if \<not> continueIteration \<and> err = None then Break NotContinuing s1
         else if err \<noteq> None then Break IterationError s1
         else
           let s2 = s1\<lparr> iterationCount := count + 1 \<rparr> in
           if iterationCount s2 > 0 \<and> iterationCount s2 mod 5 = 0 then
             (if \<not> promptContinueIteration env (iterationCount s2)
              then Break StoppedByUser
                     (s2\<lparr> observed := observed s2 @ [Prompted (iterationCount s2)] \<rparr>)
              else
                (let s3 = s2\<lparr> observed := observed s2 @ [Prompted (iterationCount s2)] \<rparr> in
                 if iterationCount s3 < MaxIterations cli \<or> MaxIterations cli = 0
                 then Next (s3\<lparr> observed := observed s3 @ [Slept (IterationDelay cli)] \<rparr>)
                 else Next s3))
           else
             (if iterationCount s2 < MaxIterations cli \<or> MaxIterations cli = 0
              then Next (s2\<lparr> observed := observed s2 @ [Slept (IterationDelay cli)] \<rparr>)
              else Next s2))"

text \<open>The loop \<^verbatim>\<open>for { ... }\<close>. It need not end: the value \<open>None\<close> is a run that
  never leaves the loop.\<close>

partial_function (option) iterate ::
  "('v, 'r, 't) IterableCLI \<Rightarrow> ('r, 't) cli_env \<Rightarrow> ('r, 't) loop_state
     \<Rightarrow> (halt \<times> ('r, 't) loop_state) option" where
  "iterate cli env s =
     (if MaxIterations cli > 0 \<and> iterationCount s \<ge> MaxIterations cli
      then Some (MaxIterationsReached, s)
      else
        (case loop_body cli env s of
           Break reason s' \<Rightarrow> Some (reason, s')
         | Next s' \<Rightarrow> iterate cli env s'))"

text \<open>\<^verbatim>\<open>Run\<close>. A run that returns gives the error returned, the driver with its
  \<^verbatim>\<open>Results\<close>, what was observed, and, for the loop, the \<^verbatim>\<open>break\<close> that ended it.\<close>

record ('v, 'r, 't) run_result =
  returned :: go_error
  driver :: "('v, 'r, 't) IterableCLI"
  events :: "event list"
  ended :: "halt option"

definition Run ::
  "('v, 'r, 't) IterableCLI \<Rightarrow> ('r, 't) cli_env \<Rightarrow> ('v, 'r, 't) run_result option" where
  "Run cli env =
     (if \<not> SupportsIteration (Plugin cli) then
        (case IterablePlugin.Execute (Plugin cli) (Params cli) of
           (result, Some err) \<Rightarrow>
             Some \<lparr> returned = Some err, driver = cli, events = [], ended = None \<rparr>
         | (result, None) \<Rightarrow>
             Some \<lparr> returned = snd (printResult cli env result 0), driver = cli,
                    events = fst (printResult cli env result 0), ended = None \<rparr>)
      else
        (case iterate cli env \<lparr> iterationCount = 0, results = [], observed = [] \<rparr> of
           None \<Rightarrow> None
         | Some (reason, s) \<Rightarrow>
             Some \<lparr> returned = None, driver = cli\<lparr> Results := results s \<rparr>,
                    events = observed s, ended = Some reason \<rparr>))"

text \<open>The counts of the calls of \<^verbatim>\<open>ExecuteIteration\<close> and of the prompts among what
  was observed, in order.\<close>

fun dispatched :: "event list \<Rightarrow> int list" where
  "dispatched [] = []"
| "dispatched (Dispatched i # es) = i # dispatched es"
| "dispatched (e # es) = dispatched es"

fun prompted :: "event list \<Rightarrow> int list" where
  "prompted [] = []"
| "prompted (Prompted i # es) = i # prompted es"
| "prompted (e # es) = prompted es"

text \<open>What the claims look at in a run that has returned: the counts of the results
  recorded, the counts dispatched, the counts at which the operator was asked, and the
  \<^verbatim>\<open>break\<close> that ended the loop.\<close>

definition run_summary ::
  "('v, 'r, 't) run_result \<Rightarrow> int list \<times> int list \<times> int list \<times> halt option" where
  "run_summary r =
     (map IterationCount (Results (driver r)), dispatched (events r), prompted (events r),
      ended r)"

text \<open>The lines an operator types at the prompt, as \<^verbatim>\<open>ReadString\<close> returns them.\<close>

definition line_no :: string where
  "line_no = [CHR ''n'', CHR 0x0A]"

definition line_yes :: string where
  "line_yes = [CHR ''y'', CHR 0x0A]"

text \<open>A plugin whose iteration entry point always returns continuation true and no
  error, an environment whose operator always types the same line, and a driver for
  them with a maximum and a mode.\<close>

definition always_continue :: "(string, string) IterablePlugin" where
  "always_continue =
     \<lparr> SupportsIteration = True,
       Execute = (\<lambda>params. (''once'', None)),
       ExecuteIteration = (\<lambda>params i. (''again'', True, None)) \<rparr>"

definition typing_env :: "string \<Rightarrow> (string, int) cli_env" where
  "typing_env line =
     \<lparr> TimeNow = (\<lambda>i. i),
       ReadString = (\<lambda>i. (line, None)),
       MarshalIndent = (\<lambda>r. Inr r),
       MarshalLine = (\<lambda>i r. Inr r) \<rparr>"

definition continuing_cli :: "int \<Rightarrow> bool \<Rightarrow> (string, string, int) IterableCLI" where
  "continuing_cli maxIterations run =
     \<lparr> Plugin = always_continue, Params = Map.empty, MaxIterations = maxIterations,
       IterationDelay = 0, Results = [], RunInTerminal = run \<rparr>"

text \<open>A plugin that fails at its third iteration (count 2).\<close>

definition failing_third :: "(string, string) IterablePlugin" where
  "failing_third =
     \<lparr> SupportsIteration = True,
       Execute = (\<lambda>params. (''once'', None)),
       ExecuteIteration =
         (\<lambda>params i. if i = 2 then ([], True, Some ''timeout'') else (''again'', True, None)) \<rparr>"

definition failing_cli :: "(string, string, int) IterableCLI" where
  "failing_cli =
     \<lparr> Plugin = failing_third, Params = Map.empty, MaxIterations = 0,
       IterationDelay = 0, Results = [], RunInTerminal = True \<rparr>"

subsection \<open>Discovery: \<^verbatim>\<open>LoadPlugins\<close> and the registry\<close>

text \<open>An execution function held by the registry is one of two closures: the wrapper
  \<^verbatim>\<open>LoadPlugins\<close> makes over a plugin directory and identifier, or the function
  \<^verbatim>\<open>LoadPluginFunc\<close> returns over the same two values.\<close>

datatype executor = WrapperFunc string string | HelperFunc string string

text \<open>The lines \<^verbatim>\<open>LoadPlugins\<close> prints, by their kind and arguments.\<close>

datatype log_line =
    ReadFailed string string
  | ParseFailed string string
  | IDMismatch string string
  | Registering string

text \<open>\<^verbatim>\<open>LoadPluginFunc\<close>, given the map of the global registry.\<close>

definition LoadPluginFunc ::
  "('v, 'f) os_env \<Rightarrow> (string \<rightharpoonup> executor) \<Rightarrow> string \<Rightarrow> string \<Rightarrow> string + executor" where
  "LoadPluginFunc env pluginFuncs pluginDir' pluginID' =
     (case stat_error (Stat env (Join2 env pluginDir' ''plugin.go'')) of
        Some err \<Rightarrow> Inl (''plugin.go file not found for '' @ pluginID' @ '': '' @ err)
      | None \<Rightarrow>
          (case Glob env (Join2 env pluginDir' ''*.go'') of
             Inl err \<Rightarrow>
               Inl (''error finding Go files for plugin '' @ pluginID' @ '': '' @ err)
           | Inr goFiles \<Rightarrow>
               if length goFiles = 0
               then Inl (''no Go files found for plugin '' @ pluginID')
               else if pluginID' = ''subnet_calculator''
               then (case pluginFuncs pluginID' of
                       Some execFunc \<Rightarrow> Inr execFunc
                     | None \<Rightarrow> Inr (HelperFunc pluginDir' pluginID'))
               else Inr (HelperFunc pluginDir' pluginID')))"

text \<open>The state \<^verbatim>\<open>LoadPlugins\<close> works on: the loader's own map, the map of the
  global registry, and what has been printed.\<close>

record load_state =
  pluginExecuteFuncs :: "string \<rightharpoonup> executor"
  registry :: "string \<rightharpoonup> executor"
  printed :: "log_line list"

text \<open>The consistency check of \<^verbatim>\<open>LoadPlugins\<close>: an identifier that matches
  neither the directory name nor the name without its \<^verbatim>\<open>plugin_\<close> prefix is
  reported, and nothing else happens.\<close>

definition warn_mismatch :: "string \<Rightarrow> string \<Rightarrow> load_state \<Rightarrow> load_state" where
  "warn_mismatch pluginID' entryName st =
     (if pluginID' \<noteq> entryName \<and> entryName \<noteq> ''plugin_'' @ pluginID'
      then st\<lparr> printed := printed st @ [IDMismatch pluginID' entryName] \<rparr>
      else st)"

text \<open>The second half of the body of the loop of \<^verbatim>\<open>LoadPlugins\<close>, once
  \<^verbatim>\<open>plugin.json\<close> has been parsed: the consistency check, the wrapper stored in the
  loader and in the registry, and the override by the helper function. No field of the
  definition is compared with the empty string.\<close>

definition LoadPlugins_register ::
  "('v, 'f) os_env \<Rightarrow> string \<Rightarrow> string \<Rightarrow> ('v, 'f) PluginDefinition \<Rightarrow> load_state
     \<Rightarrow> load_state" where
  "LoadPlugins_register env pluginDir' entryName pluginDef st =
     (let pluginID' = PluginDefinition.ID pluginDef;
          st1 = warn_mismatch pluginID' entryName st;
          st2 = st1\<lparr> printed := printed st1 @ [Registering pluginID'] \<rparr>;
          st3 = st2\<lparr> pluginExecuteFuncs :=
                  (pluginExecuteFuncs st2)(pluginID' \<mapsto> WrapperFunc pluginDir' pluginID') \<rparr>;
          st4 = st3\<lparr> registry :=
                  (registry st3)(pluginID' \<mapsto> WrapperFunc pluginDir' pluginID') \<rparr>
      in if pluginID' \<noteq> ''dns_lookup'' then
           (case LoadPluginFunc env (registry st4) pluginDir' pluginID' of
              Inr helperFunc \<Rightarrow> st4\<lparr> registry := (registry st4)(pluginID' \<mapsto> helperFunc) \<rparr>
            | Inl err \<Rightarrow> st4)
         else st4)"

text \<open>The body of the loop of \<^verbatim>\<open>LoadPlugins\<close> for one directory entry; each
  \<^verbatim>\<open>continue\<close> returns the state as it is at that point.\<close>

definition LoadPlugins_entry ::
  "('v, 'f) os_env \<Rightarrow> string \<Rightarrow> dir_entry \<Rightarrow> load_state \<Rightarrow> load_state" where
  "LoadPlugins_entry env pluginsDir entry st =
     (if \<not> entry_IsDir entry then st
      else
        let pluginDir' = Join2 env pluginsDir (entry_Name entry);
            pluginJSONPath = Join2 env pluginDir' ''plugin.json'';
            pluginGoPath = Join2 env pluginDir' ''plugin.go''
        in if IsNotExist (Stat env pluginJSONPath) then st
           else if IsNotExist (Stat env pluginGoPath) then st
           else
             (case ReadFile env pluginJSONPath of
                Inl err \<Rightarrow> st\<lparr> printed := printed st @ [ReadFailed (entry_Name entry) err] \<rparr>
              | Inr data \<Rightarrow>
                  (case Unmarshal env data of
                     Inl err \<Rightarrow>
                       st\<lparr> printed := printed st @ [ParseFailed (entry_Name entry) err] \<rparr>
                   | Inr pluginDef \<Rightarrow>
                       LoadPlugins_register env pluginDir' (entry_Name entry) pluginDef st)))"

text \<open>\<^verbatim>\<open>LoadPlugins\<close>: the error it returns and the state it leaves. The slice
  \<^verbatim>\<open>p.plugins\<close> it also returns is reset at the start and never appended to.\<close>

definition LoadPlugins ::
  "('v, 'f) os_env \<Rightarrow> string \<Rightarrow> load_state \<Rightarrow> go_error \<times> load_state" where
  "LoadPlugins env pluginsDir st =
     (let st0 = st\<lparr> pluginExecuteFuncs := Map.empty \<rparr> in
      case ReadDir env pluginsDir of
        Inl err \<Rightarrow> (Some (''failed to read plugins directory: '' @ err), st0)
      | Inr entries \<Rightarrow> (None, fold (LoadPlugins_entry env pluginsDir) entries st0))"

text \<open>A plugins directory with one plugin \<^verbatim>\<open>x\<close> whose manifest gives an identifier
  and nothing else: the name and the description of the parsed definition are empty.\<close>

definition nameless_definition :: "(string, real) PluginDefinition" where
  "nameless_definition =
     \<lparr> PluginDefinition.ID = ''x'', PluginDefinition.Name = [],
       PluginDefinition.Description = [], PluginDefinition.Version = [],
       PluginDefinition.Author = [], PluginDefinition.License = [],
       PluginDefinition.Icon = [], PluginDefinition.Parameters = [],
       PluginDefinition.Requires = [], PluginDefinition.Repository = [] \<rparr>"

definition nameless_env :: "(string, real) os_env" where
  "nameless_env =
     \<lparr> Join2 = (\<lambda>a b. a @ ''/'' @ b),
       Stat = (\<lambda>path. StatOk),
       ReadFile = (\<lambda>path. Inr ''manifest of x''),
       ReadDir = (\<lambda>path. Inr [DirEntry ''x'' True]),
       Glob = (\<lambda>pattern. Inr [''plugins/x/plugin.go'']),
       Unmarshal = (\<lambda>data. Inr nameless_definition),
       CombinedOutput = (\<lambda>name args dir. ([], None)) \<rparr>"

definition empty_load_state :: load_state where
  "empty_load_state =
     \<lparr> pluginExecuteFuncs = Map.empty, registry = Map.empty, printed = [] \<rparr>"

subsection \<open>Concurrent calls of \<^verbatim>\<open>RunPlugin\<close> and the build of a plugin\<close>

text \<open>\<^verbatim>\<open>RunPlugin\<close> takes no lock beyond the read lock of \<^verbatim>\<open>GetPlugin\<close>, and the
  functions it ends in take none: calls made at the same time run their statements
  interleaved. This part follows one call statement by statement, from the entry of
  \<^verbatim>\<open>RunPlugin\<close> through the function the plugin holds in \<^verbatim>\<open>Execute\<close> to the return,
  on a file system that the calls share.

  The function in \<^verbatim>\<open>Execute\<close>, once \<^verbatim>\<open>RefreshPlugins\<close> has filled the manager, is
  a function of the registry (one of the two closures of \<^verbatim>\<open>executor\<close>) or the literal
  of the hard-coded plugin \<^verbatim>\<open>network_info\<close>.\<close>

datatype execute_func = RegistryFunc executor | NetworkInfoFunc

text \<open>\<^verbatim>\<open>PluginRegistry.GetPluginFunc\<close>, given the map of the registry.\<close>

definition GetPluginFunc :: "(string \<rightharpoonup> executor) \<Rightarrow> string \<Rightarrow> string + executor" where
  "GetPluginFunc pluginFuncs id' =
     (case pluginFuncs id' of
        None \<Rightarrow> Inl (''plugin function not found: '' @ id')
      | Some fn \<Rightarrow> Inr fn)"

text \<open>What \<^verbatim>\<open>plugin.Open\<close> and the statements after it find in an artifact: the error
  of \<^verbatim>\<open>plugin.Open\<close>, the error of \<^verbatim>\<open>p.Lookup("Plugin")\<close>, a symbol that
  \<^verbatim>\<open>reflect.Value.Call\<close> cannot call (a panic), a value that is not a map, a map with
  no function under \<^verbatim>\<open>execute\<close>, or an execute function.\<close>

datatype open_result =
    OpenError string
  | LookupError string
  | CallPanics
  | NotAMap
  | NoExecuteFunc
  | Exports

text \<open>What the calls share and change: the operating system with its files, and the
  number of times the build command has been handed to \<^verbatim>\<open>executeCommand\<close>.\<close>

record ('v, 'f) build_world =
  os :: "('v, 'f) os_env"
  builds :: nat

text \<open>What stays as it is while the calls run: the map of the manager (of each plugin
  the two fields \<^verbatim>\<open>RunPlugin\<close> reads, \<^verbatim>\<open>Parameters\<close> and \<^verbatim>\<open>Execute\<close>), the map of
  the registry, and two answers of the system. \<open>Command_Run name args k\<close> is what
  \<^verbatim>\<open>exec.Command(name, args...).CombinedOutput()\<close> gives when it runs the build command
  for the \<open>k\<close>-th time: the error, and whether the run leaves the artifact.
  \<open>plugin_Open\<close> is what is found in the artifact at a path, given what \<^verbatim>\<open>os.Stat\<close>
  reports of the path.\<close>

record ('v, 'f) call_env =
  pm_plugins :: "string \<rightharpoonup> ('v, 'f) ManagerParameter list \<times> execute_func"
  registryFuncs :: "string \<rightharpoonup> executor"
  Command_Run :: "string \<Rightarrow> string list \<Rightarrow> nat \<Rightarrow> go_error \<times> bool"
  plugin_Open :: "stat_result \<Rightarrow> string \<Rightarrow> open_result"

text \<open>\<^verbatim>\<open>executeCommand\<close> makes \<^verbatim>\<open>NewCommand(command)\<close>, whose \<^verbatim>\<open>Run\<close> calls
  \<^verbatim>\<open>exec.Command(c.cmd, c.args...)\<close> with no arguments: the whole line, \<^verbatim>\<open>cd\<close> and
  \<^verbatim>\<open>&&\<close> included, is the name of the program to start, and no shell reads it.\<close>

definition executeCommand :: "('v, 'f) call_env \<Rightarrow> string \<Rightarrow> nat \<Rightarrow> go_error \<times> bool" where
  "executeCommand env command k = Command_Run env command [] k"

text \<open>The build command and the path of the artifact, which \<^verbatim>\<open>executeSubnetCalculator\<close>
  forms like the \<^verbatim>\<open>default\<close> branch does, for its own directory (a
  \<^verbatim>\<open>filepath.Join\<close> of four elements, here three joins of two) and identifier.\<close>

definition buildCmd :: "string \<Rightarrow> string \<Rightarrow> string" where
  "buildCmd pluginDir' pluginID' =
     ''cd '' @ pluginDir' @ '' && go build -buildmode=plugin -o '' @ pluginID' @ ''.so .''"

definition pluginPath :: "('v, 'f) os_env \<Rightarrow> string \<Rightarrow> string \<Rightarrow> string" where
  "pluginPath e pluginDir' pluginID' = Join2 e pluginDir' (pluginID' @ ''.so'')"

definition subnet_calculator_dir :: "('v, 'f) os_env \<Rightarrow> string" where
  "subnet_calculator_dir e =
     Join2 e (Join2 e (Join2 e ''app'' ''plugins'') ''plugins'') ''subnet_calculator''"

text \<open>How a call that has returned came to its result: an error made by the code
  followed here, the panic of \<^verbatim>\<open>reflect.Value.Call\<close>, the map of \<^verbatim>\<open>network_info\<close>,
  or whatever was returned by the executor of the helper for a case of its switch, by
  \<^verbatim>\<open>executeWithMain\<close> for a plugin directory, or by the execute function of the
  artifact at a path.\<close>

datatype call_result =
    ReturnedError string
  | Panicked
  | NetworkInfoMessage
  | NativeResult string
  | GoRunResult string
  | ExportResult string

text \<open>The test for the artifact, the build and \<^verbatim>\<open>plugin.Open\<close> stand twice in the
  source: in the \<^verbatim>\<open>default\<close> branch of the function \<^verbatim>\<open>LoadPluginFunc\<close> returns, and in
  \<^verbatim>\<open>executeSubnetCalculator\<close>. The two differ in what follows a failure.\<close>

datatype site = DefaultBranch | SubnetCalculator

text \<open>Where a call is: at the entry of \<^verbatim>\<open>RunPlugin\<close>; about to call a function; at
  \<^verbatim>\<open>os.Stat(pluginPath)\<close>; at \<^verbatim>\<open>executeCommand(buildCmd)\<close>; inside it, with the build
  command running as the invocation of the given number; at \<^verbatim>\<open>plugin.Open(pluginPath)\<close>;
  or returned. The three middle positions carry the site, the plugin directory and the
  identifier.\<close>

datatype pc =
    AtRunPlugin
  | AtExecute execute_func
  | AtStat site string string
  | AtBuild site string string
  | InBuild site string string nat
  | AtOpen site string string
  | Returned call_result

text \<open>\<^verbatim>\<open>RunPlugin\<close> up to \<^verbatim>\<open>plugin.Execute(params)\<close>: the look-up of \<^verbatim>\<open>GetPlugin\<close> and
  the validation loop, which read the plugin and the parameters and nothing else.\<close>

definition RunPlugin_dispatch ::
  "('v, 'f) call_env \<Rightarrow> string \<Rightarrow> (string \<rightharpoonup> 'v) \<Rightarrow> pc" where
  "RunPlugin_dispatch env id' params =
     (case pm_plugins env id' of
        None \<Rightarrow> Returned (ReturnedError ''plugin not found'')
      | Some plugin \<Rightarrow>
          (case validate_parameters (fst plugin) params of
             Some err \<Rightarrow> Returned (ReturnedError err)
           | None \<Rightarrow> AtExecute (snd plugin)))"

text \<open>The identifiers that the switch of the helper function serves with an executor of
  its own, in the order of the cases after \<^verbatim>\<open>subnet_calculator\<close>. These executors run
  tools of the system (\<^verbatim>\<open>ping\<close>, \<^verbatim>\<open>dig\<close>, \<^verbatim>\<open>iw\<close>, \<^verbatim>\<open>librespeed-cli\<close>, ...) or
  compute in place; none tests for an artifact, none runs the build command.\<close>

definition native_ids :: "string list" where
  "native_ids =
     [''network_latency_heatmap'', ''ping'', ''traceroute'', ''dns_lookup'',
      ''port_scanner'', ''bandwidth_test'', ''packet_capture'', ''tc_controller'',
      ''arp_manager'', ''device_discovery'', ''network_quality'', ''dns_propagation'',
      ''ssl_checker'', ''reverse_dns_lookup'', ''mtu_tester'', ''wifi_scanner'']"

text \<open>The function \<^verbatim>\<open>LoadPluginFunc\<close> returns, up to the first statement that looks at
  the file system: the switch on \<^verbatim>\<open>pluginID\<close>.\<close>

definition helper_func :: "('v, 'f) os_env \<Rightarrow> string \<Rightarrow> string \<Rightarrow> pc" where
  "helper_func e pluginDir' pluginID' =
     (if pluginID' = ''subnet_calculator''
      then AtStat SubnetCalculator (subnet_calculator_dir e) ''subnet_calculator''
      else if pluginID' \<in> set native_ids then Returned (NativeResult pluginID')
      else AtStat DefaultBranch pluginDir' pluginID')"

text \<open>\<^verbatim>\<open>strings.Contains\<close>.\<close>

fun Contains :: "string \<Rightarrow> string \<Rightarrow> bool" where
  "Contains [] substr = (substr = [])"
| "Contains (c # s) substr = (take (length substr) (c # s) = substr \<or> Contains s substr)"

text \<open>\<^verbatim>\<open>DynamicPlugin.executeWithLibrary\<close> and \<^verbatim>\<open>DynamicPlugin.Execute\<close>.
  \<^verbatim>\<open>executeWithMain\<close> starts \<^verbatim>\<open>go run plugin.go --execute=...\<close> in the plugin
  directory, at every call, and returns what comes of it; it is not followed further,
  as it neither tests for the artifact nor runs the build command.\<close>

definition executeWithLibrary ::
  "(string \<rightharpoonup> executor) \<Rightarrow> ('v, 'f) DynamicPlugin \<Rightarrow> pc" where
  "executeWithLibrary pluginFuncs p =
     (case GetPluginFunc pluginFuncs (pluginID p) of
        Inl err \<Rightarrow>
          Returned (ReturnedError (''plugin '' @ pluginID p
            @ '' not found in registry and cannot be executed directly: '' @ err))
      | Inr executeFunc \<Rightarrow> AtExecute (RegistryFunc executeFunc))"

definition DynamicPlugin_Execute ::
  "('v, 'f) os_env \<Rightarrow> (string \<rightharpoonup> executor) \<Rightarrow> ('v, 'f) DynamicPlugin \<Rightarrow> pc" where
  "DynamicPlugin_Execute e pluginFuncs p =
     (case ReadFile e (Join2 e (pluginDir p) ''plugin.go'') of
        Inl err \<Rightarrow> Returned (ReturnedError (''failed to read plugin.go: '' @ err))
      | Inr pluginContent \<Rightarrow>
          if Contains pluginContent ''package main''
          then Returned (GoRunResult (pluginDir p))
          else executeWithLibrary pluginFuncs p)"

text \<open>The wrapper \<^verbatim>\<open>LoadPlugins\<close> makes: \<^verbatim>\<open>loadPlugin\<close>, then \<^verbatim>\<open>Execute\<close> of the
  dynamic plugin.\<close>

definition wrapper_func ::
  "('v, 'f) os_env \<Rightarrow> (string \<rightharpoonup> executor) \<Rightarrow> string \<Rightarrow> string \<Rightarrow> pc" where
  "wrapper_func e pluginFuncs pluginDir' pluginID' =
     (case loadPlugin e pluginDir' pluginID' of
        Inl err \<Rightarrow>
          Returned (ReturnedError (''failed to load plugin '' @ pluginID' @ '': '' @ err))
      | Inr pluginInstance \<Rightarrow> DynamicPlugin_Execute e pluginFuncs pluginInstance)"

text \<open>The fallback of \<^verbatim>\<open>executeSubnetCalculator\<close>: the function the registry holds for
  \<^verbatim>\<open>subnet_calculator\<close> is called, or an error is returned whose message may embed the
  error of the registry.\<close>

definition registry_fallback :: "(string \<rightharpoonup> executor) \<Rightarrow> (string \<Rightarrow> string) \<Rightarrow> pc" where
  "registry_fallback pluginFuncs message =
     (case GetPluginFunc pluginFuncs ''subnet_calculator'' of
        Inl err \<Rightarrow> Returned (ReturnedError (message err))
      | Inr execFunc \<Rightarrow> AtExecute (RegistryFunc execFunc))"

text \<open>After a build command that returned an error: the \<^verbatim>\<open>default\<close> branch returns
  from the call, \<^verbatim>\<open>executeSubnetCalculator\<close> falls back on the registry.\<close>

fun build_failed :: "(string \<rightharpoonup> executor) \<Rightarrow> site \<Rightarrow> string \<Rightarrow> string \<Rightarrow> pc" where
  "build_failed pluginFuncs DefaultBranch pluginID' err =
     Returned (ReturnedError (''failed to build plugin '' @ pluginID' @ '': '' @ err))"
| "build_failed pluginFuncs SubnetCalculator pluginID' err =
     registry_fallback pluginFuncs
       (\<lambda>err. ''subnet_calculator plugin not registered and couldn't build dynamic plugin: ''
          @ err)"

text \<open>From \<^verbatim>\<open>plugin.Open(pluginPath)\<close> to the return, by what is found in the
  artifact.\<close>

fun after_open ::
  "(string \<rightharpoonup> executor) \<Rightarrow> site \<Rightarrow> string \<Rightarrow> string \<Rightarrow> open_result \<Rightarrow> pc" where
  "after_open pluginFuncs site path pluginID' Exports = Returned (ExportResult path)"
| "after_open pluginFuncs site path pluginID' CallPanics = Returned Panicked"
| "after_open pluginFuncs DefaultBranch path pluginID' (OpenError err) =
     Returned (ReturnedError (''failed to load plugin '' @ pluginID' @ '': '' @ err))"
| "after_open pluginFuncs DefaultBranch path pluginID' (LookupError err) =
     Returned (ReturnedError
       (''plugin '' @ pluginID' @ '' does not export Plugin symbol: '' @ err))"
| "after_open pluginFuncs DefaultBranch path pluginID' NotAMap =
     Returned (ReturnedError (''plugin '' @ pluginID' @ '' Plugin() did not return a map''))"
| "after_open pluginFuncs DefaultBranch path pluginID' NoExecuteFunc =
     Returned (ReturnedError
       (''plugin '' @ pluginID' @ '' does not provide a valid execute function''))"
| "after_open pluginFuncs SubnetCalculator path pluginID' (OpenError err) =
     registry_fallback pluginFuncs
       (\<lambda>err. ''subnet_calculator plugin not registered and couldn't load dynamic plugin: ''
          @ err)"
| "after_open pluginFuncs SubnetCalculator path pluginID' (LookupError err) =
     registry_fallback pluginFuncs
       (\<lambda>err. ''subnet_calculator plugin not registered and couldn't find Plugin symbol: ''
          @ err)"
| "after_open pluginFuncs SubnetCalculator path pluginID' NotAMap =
     registry_fallback pluginFuncs
       (\<lambda>err. ''subnet_calculator Plugin() did not return a map'')"
| "after_open pluginFuncs SubnetCalculator path pluginID' NoExecuteFunc =
     registry_fallback pluginFuncs
       (\<lambda>err. ''subnet_calculator does not provide a valid execute function'')"

text \<open>The file system once a build command has left the artifact at a path.\<close>

definition leave_artifact :: "string \<Rightarrow> ('v, 'f) build_world \<Rightarrow> ('v, 'f) build_world" where
  "leave_artifact path w = w\<lparr> os := (os w)\<lparr> Stat := (Stat (os w))(path := StatOk) \<rparr> \<rparr>"

text \<open>One step of one call, on the world as it is when the step is taken. The call is
  the pair of the arguments of \<^verbatim>\<open>RunPlugin\<close>. An invocation of the build command is
  counted when \<^verbatim>\<open>executeCommand\<close> is entered; its error and what it leaves come with the
  next step of the call, and other calls may move in between.\<close>

fun caller_step ::
  "('v, 'f) call_env \<Rightarrow> string \<times> (string \<rightharpoonup> 'v) \<Rightarrow> pc \<Rightarrow> ('v, 'f) build_world
     \<Rightarrow> pc \<times> ('v, 'f) build_world" where
  "caller_step env call AtRunPlugin w = (RunPlugin_dispatch env (fst call) (snd call), w)"
| "caller_step env call (AtExecute NetworkInfoFunc) w = (Returned NetworkInfoMessage, w)"
| "caller_step env call (AtExecute (RegistryFunc (HelperFunc pluginDir' pluginID'))) w =
     (helper_func (os w) pluginDir' pluginID', w)"
| "caller_step env call (AtExecute (RegistryFunc (WrapperFunc pluginDir' pluginID'))) w =
     (wrapper_func (os w) (registryFuncs env) pluginDir' pluginID', w)"
| "caller_step env call (AtStat site pluginDir' pluginID') w =
     (if IsNotExist (Stat (os w) (pluginPath (os w) pluginDir' pluginID'))
      then AtBuild site pluginDir' pluginID'
      else AtOpen site pluginDir' pluginID', w)"
| "caller_step env call (AtBuild site pluginDir' pluginID') w =
     (InBuild site pluginDir' pluginID' (builds w), w\<lparr> builds := builds w + 1 \<rparr>)"
| "caller_step env call (InBuild site pluginDir' pluginID' k) w =
     (case fst (executeCommand env (buildCmd pluginDir' pluginID') k) of
        None \<Rightarrow> AtOpen site pluginDir' pluginID'
      | Some err \<Rightarrow> build_failed (registryFuncs env) site pluginID' err,
      if snd (executeCommand env (buildCmd pluginDir' pluginID') k)
      then leave_artifact (pluginPath (os w) pluginDir' pluginID') w
      else w)"
| "caller_step env call (AtOpen site pluginDir' pluginID') w =
     (after_open (registryFuncs env) site (pluginPath (os w) pluginDir' pluginID') pluginID'
        (plugin_Open env (Stat (os w) (pluginPath (os w) pluginDir' pluginID'))
           (pluginPath (os w) pluginDir' pluginID')), w)"
| "caller_step env call (Returned r) w = (Returned r, w)"

text \<open>Concurrent calls: each has its arguments and its position, and a schedule names,
  step by step, the call that moves next (a number that names no call moves
  nothing).\<close>

definition sched_step ::
  "('v, 'f) call_env \<Rightarrow> nat
     \<Rightarrow> ((string \<times> (string \<rightharpoonup> 'v)) \<times> pc) list \<times> ('v, 'f) build_world
     \<Rightarrow> ((string \<times> (string \<rightharpoonup> 'v)) \<times> pc) list \<times> ('v, 'f) build_world" where
  "sched_step env i cfg =
     (if i < length (fst cfg)
      then ((fst cfg)[i := (fst (fst cfg ! i),
                fst (caller_step env (fst (fst cfg ! i)) (snd (fst cfg ! i)) (snd cfg)))],
            snd (caller_step env (fst (fst cfg ! i)) (snd (fst cfg ! i)) (snd cfg)))
      else cfg)"

definition run_schedule ::
  "('v, 'f) call_env \<Rightarrow> nat list
     \<Rightarrow> ((string \<times> (string \<rightharpoonup> 'v)) \<times> pc) list \<times> ('v, 'f) build_world
     \<Rightarrow> ((string \<times> (string \<rightharpoonup> 'v)) \<times> pc) list \<times> ('v, 'f) build_world" where
  "run_schedule env schedule cfg = fold (sched_step env) schedule cfg"

text \<open>Calls of \<^verbatim>\<open>RunPlugin\<close> for one identifier, one for each parameter mapping of a
  list, none of which has taken a step.\<close>

definition calls_for ::
  "string \<Rightarrow> (string \<rightharpoonup> 'v) list \<Rightarrow> ('v, 'f) build_world
     \<Rightarrow> ((string \<times> (string \<rightharpoonup> 'v)) \<times> pc) list \<times> ('v, 'f) build_world" where
  "calls_for id' paramss w = (map (\<lambda>params. ((id', params), AtRunPlugin)) paramss, w)"

text \<open>The positions of the calls, and whether all of them have returned.\<close>

definition positions ::
  "((string \<times> (string \<rightharpoonup> 'v)) \<times> pc) list \<times> ('v, 'f) build_world \<Rightarrow> pc list" where
  "positions cfg = map snd (fst cfg)"








text \<open>An example: the plugin \<^verbatim>\<open>iperf3\<close>, which the switch does not name, registered
  with the helper function and no parameters, and a file system that has every file but
  its artifact. \<open>unbuilt_env\<close> answers the build command as a system does that has no
  program of that name; \<open>planted_env\<close> answers as if a program of that name were there
  that builds the artifact.\<close>

definition iperf3_dir :: string where
  "iperf3_dir = ''app/plugins/plugins/iperf3''"

definition unbuilt_os :: "(string, real) os_env" where
  "unbuilt_os =
     \<lparr> Join2 = (\<lambda>a b. a @ ''/'' @ b),
       Stat = (\<lambda>path. if path = ''app/plugins/plugins/iperf3/iperf3.so''
                       then StatNotExist ''no such file or directory'' else StatOk),
       ReadFile = (\<lambda>path. Inr ''package iperf3''),
       ReadDir = (\<lambda>path. Inr []),
       Glob = (\<lambda>pattern. Inr []),
       Unmarshal = (\<lambda>data. Inl ''unexpected end of JSON input''),
       CombinedOutput = (\<lambda>name args dir. ([], None)) \<rparr>"

definition unbuilt_world :: "(string, real) build_world" where
  "unbuilt_world = \<lparr> os = unbuilt_os, builds = 0 \<rparr>"

definition unbuilt_env :: "(string, real) call_env" where
  "unbuilt_env =
     \<lparr> pm_plugins = [''iperf3'' \<mapsto> ([], RegistryFunc (HelperFunc iperf3_dir ''iperf3''))],
       registryFuncs = [''iperf3'' \<mapsto> HelperFunc iperf3_dir ''iperf3''],
       Command_Run = (\<lambda>name args k. (Some ''no such file or directory'', False)),
       plugin_Open = (\<lambda>st path. if st = StatOk then Exports
                                 else OpenError ''no such file or directory'') \<rparr>"


definition no_params :: "string \<rightharpoonup> string" where
  "no_params = Map.empty"


definition one_after_the_other :: "nat list" where
  "one_after_the_other = [0, 0, 0, 0, 0, 0, 1, 1, 1, 1, 1, 1]"





text \<open>The positions of a call for a plugin registered with the helper function for an
  identifier that has a case of its own in the switch.\<close>

fun on_native_case :: "string \<Rightarrow> string \<Rightarrow> pc \<Rightarrow> bool" where
  "on_native_case d i AtRunPlugin = True"
| "on_native_case d i (AtExecute f) = (f = RegistryFunc (HelperFunc d i))"
| "on_native_case d i (AtStat site pluginDir' pluginID') = False"
| "on_native_case d i (AtBuild site pluginDir' pluginID') = False"
| "on_native_case d i (InBuild site pluginDir' pluginID' k) = False"
| "on_native_case d i (AtOpen site pluginDir' pluginID') = False"
| "on_native_case d i (Returned r) = True"

text \<open>Two more examples. The plugin \<^verbatim>\<open>ping\<close> with its required parameter \<^verbatim>\<open>host\<close>,
  registered with the helper function, which serves it by \<^verbatim>\<open>executePing\<close>. And
  \<^verbatim>\<open>subnet_calculator\<close>, registered with a helper function made while the registry
  held nothing for it, on a file system without its artifact.\<close>

definition ping_env :: "(string, real) call_env" where
  "ping_env =
     unbuilt_env\<lparr> pm_plugins :=
       [''ping'' \<mapsto> ([host_parameter],
          RegistryFunc (HelperFunc ''app/plugins/plugins/ping'' ''ping''))] \<rparr>"

definition host_params :: "string \<rightharpoonup> string" where
  "host_params = [''host'' \<mapsto> ''192.0.2.1'']"

definition subnet_env :: "(string, real) call_env" where
  "subnet_env =
     unbuilt_env\<lparr> pm_plugins :=
       [''subnet_calculator'' \<mapsto> ([],
          RegistryFunc (HelperFunc ''app/plugins/plugins/subnet_calculator''
            ''subnet_calculator''))],
       registryFuncs := Map.empty \<rparr>"

definition subnet_world :: "(string, real) build_world" where
  "subnet_world =
     \<lparr> os = unbuilt_os\<lparr> Stat := (\<lambda>path. StatNotExist ''no such file or directory'') \<rparr>,
       builds = 0 \<rparr>"

section \<open>Theorems\<close>

subsection \<open>The legacy compatibility adapter\<close>

lemma list_all2_map_same:
  assumes "\<And>x. R x (f x)"
  shows "list_all2 R xs (map f xs)"
  using assms by (induction xs) simp_all

lemma same_parameter_CompatPlugin_param: "same_parameter p (CompatPlugin_param p)"
  by (simp add: same_parameter_def CompatPlugin_param_def)

lemma same_parameter_LegacyPluginWrapper_param:
  "same_parameter p (LegacyPluginWrapper_param p)"
  by (simp add: same_parameter_def LegacyPluginWrapper_param_def)

text \<open>
  Claim C9. Both conversions of a legacy plugin, \<^verbatim>\<open>CompatPlugin\<close> and
  \<^verbatim>\<open>LegacyPluginWrapper.GetDefinition\<close>, keep the identifier, name, description and
  icon of the plugin; the converted parameters are as many as the legacy ones, in the
  same order, each with the same identifier, name, description, type, required flag,
  default, options, min, max and step, and with \<^verbatim>\<open>CanIterate\<close> false; the fields the
  legacy shape does not have are the fixed values of the conversion: version, author and
  license \<^verbatim>\<open>0.0.0\<close>, \<^verbatim>\<open>Unknown\<close>, \<^verbatim>\<open>Unknown\<close> for \<^verbatim>\<open>CompatPlugin\<close> and
  \<^verbatim>\<open>1.0.0\<close>, \<^verbatim>\<open>NetTool\<close>, \<^verbatim>\<open>MIT\<close> for the wrapper, no requirements and an
  empty repository for both.
\<close>

theorem legacy_conversion_preserves_parameters:
  fixes p :: "('v, 'f) LegacyPlugin"
  shows "CompatPlugin p =
           \<lparr> PluginDefinition.ID = LegacyPlugin.ID p,
             PluginDefinition.Name = LegacyPlugin.Name p,
             PluginDefinition.Description = LegacyPlugin.Description p,
             PluginDefinition.Version = ''0.0.0'',
             PluginDefinition.Author = ''Unknown'',
             PluginDefinition.License = ''Unknown'',
             PluginDefinition.Icon = LegacyPlugin.Icon p,
             PluginDefinition.Parameters = PluginDefinition.Parameters (CompatPlugin p),
             PluginDefinition.Requires = [],
             PluginDefinition.Repository = [] \<rparr>
       \<and> list_all2 same_parameter (LegacyPlugin.Parameters p)
             (PluginDefinition.Parameters (CompatPlugin p))
       \<and> list_all (\<lambda>q. \<not> PluginParam.CanIterate q)
             (PluginDefinition.Parameters (CompatPlugin p))
       \<and> LegacyPluginWrapper_GetDefinition p =
           \<lparr> PluginDefinition.ID = LegacyPlugin.ID p,
             PluginDefinition.Name = LegacyPlugin.Name p,
             PluginDefinition.Description = LegacyPlugin.Description p,
             PluginDefinition.Version = ''1.0.0'',
             PluginDefinition.Author = ''NetTool'',
             PluginDefinition.License = ''MIT'',
             PluginDefinition.Icon = LegacyPlugin.Icon p,
             PluginDefinition.Parameters =
               PluginDefinition.Parameters (LegacyPluginWrapper_GetDefinition p),
             PluginDefinition.Requires = [],
             PluginDefinition.Repository = [] \<rparr>
       \<and> list_all2 same_parameter (LegacyPlugin.Parameters p)
             (PluginDefinition.Parameters (LegacyPluginWrapper_GetDefinition p))
       \<and> list_all (\<lambda>q. \<not> PluginParam.CanIterate q)
             (PluginDefinition.Parameters (LegacyPluginWrapper_GetDefinition p))"
proof -
  have a: "list_all2 same_parameter (LegacyPlugin.Parameters p)
             (map CompatPlugin_param (LegacyPlugin.Parameters p))"
    by (rule list_all2_map_same) (rule same_parameter_CompatPlugin_param)
  have b: "list_all2 same_parameter (LegacyPlugin.Parameters p)
             (map LegacyPluginWrapper_param (LegacyPlugin.Parameters p))"
    by (rule list_all2_map_same) (rule same_parameter_LegacyPluginWrapper_param)
  have c: "list_all (\<lambda>q. \<not> PluginParam.CanIterate q)
             (map CompatPlugin_param (LegacyPlugin.Parameters p))"
    by (simp add: list_all_iff CompatPlugin_param_def)
  have d: "list_all (\<lambda>q. \<not> PluginParam.CanIterate q)
             (map LegacyPluginWrapper_param (LegacyPlugin.Parameters p))"
    by (simp add: list_all_iff LegacyPluginWrapper_param_def)
  show ?thesis
    using a b c d by (simp add: CompatPlugin_def LegacyPluginWrapper_GetDefinition_def)
qed

subsection \<open>The plugin manager\<close>

lemma validate_parameters_find:
  "validate_parameters ps params =
     map_option (\<lambda>q. ''missing required parameter: '' @ ManagerParameter.ID q)
       (find (missing_required params) ps)"
  by (induction ps) (simp_all add: missing_required_def)

text \<open>
  Claim C1. For a registered plugin and any parameter mapping: if some parameter of the
  plugin is required and its identifier is not a key of the mapping, then
  \<^verbatim>\<open>RunPlugin\<close> returns a nil result and the error
  \<^verbatim>\<open>missing required parameter: \<close> followed by the identifier of a required parameter
  that is missing (the first such in the order of the definition), and the state of the
  outside is the one before the call: the executor, whatever it is, was not invoked.
\<close>

theorem RunPlugin_missing_required_parameter:
  assumes "plugins pm id' = Some plugin"
    and "param \<in> set (Plugin.Parameters plugin)"
    and "ManagerParameter.Required param"
    and "params (ManagerParameter.ID param) = None"
  shows "\<exists>q. find (missing_required params) (Plugin.Parameters plugin) = Some q
           \<and> q \<in> set (Plugin.Parameters plugin)
           \<and> ManagerParameter.Required q
           \<and> params (ManagerParameter.ID q) = None
           \<and> RunPlugin pm id' params w =
               ((None, Some (''missing required parameter: '' @ ManagerParameter.ID q)), w)"
proof -
  have "missing_required params param"
    using assms(3,4) by (simp add: missing_required_def)
  with assms(2) have "find (missing_required params) (Plugin.Parameters plugin) \<noteq> None"
    by (auto simp: find_None_iff)
  then obtain q where q: "find (missing_required params) (Plugin.Parameters plugin) = Some q"
    by blast
  then have "missing_required params q" and "q \<in> set (Plugin.Parameters plugin)"
    by (auto simp: find_Some_iff)
  moreover have "RunPlugin pm id' params w =
      ((None, Some (''missing required parameter: '' @ ManagerParameter.ID q)), w)"
    using assms(1) q by (simp add: RunPlugin_def GetPlugin_def validate_parameters_find)
  ultimately show ?thesis
    using q by (auto simp: missing_required_def)
qed

theorem RunPlugin_missing_required_parameter_witness:
  "RunPlugin ping_manager ''ping'' Map.empty (0::nat) =
     ((None, Some ''missing required parameter: host''), 0)
   \<and> RunPlugin ping_manager ''ping'' [''host'' \<mapsto> ''8.8.8.8''] (0::nat) =
     ((Some ''pong'', None), 1)"
proof -
  have reg: "plugins ping_manager ''ping'' = Some counting_ping"
    by (simp add: ping_manager_def)
  have mem: "host_parameter \<in> set (Plugin.Parameters counting_ping)"
    by (simp add: counting_ping_def)
  have req: "ManagerParameter.Required host_parameter"
    by (simp add: host_parameter_def)
  have absent: "(Map.empty :: string \<rightharpoonup> string) (ManagerParameter.ID host_parameter) = None"
    by simp
  from RunPlugin_missing_required_parameter [OF reg mem req absent, of 0]
  have "RunPlugin ping_manager ''ping'' Map.empty (0::nat) =
     ((None, Some ''missing required parameter: host''), 0)"
    by (auto simp: counting_ping_def host_parameter_def missing_required_def)
  moreover have "RunPlugin ping_manager ''ping'' [''host'' \<mapsto> ''8.8.8.8''] (0::nat) =
     ((Some ''pong'', None), 1)"
    by (simp add: RunPlugin_def GetPlugin_def ping_manager_def counting_ping_def
        host_parameter_def)
  ultimately show ?thesis by simp
qed

text \<open>
  Claim C4. For an identifier with no entry in the manager's map, \<^verbatim>\<open>RunPlugin\<close>
  returns a nil result together with the error \<^verbatim>\<open>plugin not found\<close>, never a nil
  result with a nil error, and leaves the state of the outside as it was.
\<close>

theorem RunPlugin_unregistered_not_found:
  assumes "plugins pm id' = None"
  shows "RunPlugin pm id' params w = ((None, Some ''plugin not found''), w)"
  using assms by (simp add: RunPlugin_def GetPlugin_def)

theorem RunPlugin_unregistered_not_found_witness:
  "RunPlugin ping_manager ''nmap'' [''host'' \<mapsto> ''8.8.8.8''] (0::nat) =
     ((None, Some ''plugin not found''), 0)"
proof -
  have "plugins ping_manager ''nmap'' = None"
    by (simp add: ping_manager_def)
  then show ?thesis
    by (rule RunPlugin_unregistered_not_found)
qed

subsection \<open>The build under concurrent calls\<close>



lemma leave_artifact_builds: "builds (leave_artifact path w) = builds w"
  by (simp add: leave_artifact_def)




lemma build_failed_default:
  "\<exists>r. build_failed pluginFuncs DefaultBranch i err = Returned r"
  by simp













lemma sched_step_idle: "\<not> n < length (fst cfg) \<Longrightarrow> sched_step env n cfg = cfg"
  by (simp add: sched_step_def)











text \<open>What holds of a configuration and is kept by every step holds at the end of every
  schedule.\<close>

lemma run_schedule_invariant:
  assumes "I cfg" and "\<And>n c. I c \<Longrightarrow> I (sched_step env n c)"
  shows "I (run_schedule env schedule cfg)"
  using assms(1) unfolding run_schedule_def
  by (induction schedule arbitrary: cfg) (simp_all add: assms(2))













text \<open>The count of builds moves at one position only, the entry of
  \<^verbatim>\<open>executeCommand\<close> with the build command.\<close>

lemma caller_step_counts_builds:
  "builds (snd (caller_step env call p w)) =
     builds w + (case p of AtBuild site pluginDir' pluginID' \<Rightarrow> 1 | _ \<Rightarrow> 0)"
  by (cases "(env, call, p, w)" rule: caller_step.cases) (simp_all add: leave_artifact_builds)

text \<open>Calls for a plugin that the helper function serves by a case of its switch never
  invoke the build command, whether or not their parameters pass the validation:
  \<^verbatim>\<open>ping\<close> is one of them.\<close>

lemma native_id_not_subnet_calculator: "i \<in> set native_ids \<Longrightarrow> i \<noteq> ''subnet_calculator''"
  by (auto simp: native_ids_def)

lemma helper_func_native:
  "i \<in> set native_ids \<Longrightarrow> helper_func e d i = Returned (NativeResult i)"
  using native_id_not_subnet_calculator [of i] by (simp add: helper_func_def)

lemma RunPlugin_dispatch_registered:
  assumes "pm_plugins env id' = Some (parameters, f)"
  shows "RunPlugin_dispatch env id' params = AtExecute f
     \<or> (\<exists>err. RunPlugin_dispatch env id' params = Returned (ReturnedError err))"
  using assms by (simp add: RunPlugin_dispatch_def split: option.splits)

lemma caller_step_native:
  assumes "pm_plugins env (fst call) = Some (parameters, RegistryFunc (HelperFunc d i))"
    and "i \<in> set native_ids"
    and "on_native_case d i p"
  shows "on_native_case d i (fst (caller_step env call p w))
     \<and> snd (caller_step env call p w) = w"
proof (cases p)
  case AtRunPlugin
  with RunPlugin_dispatch_registered [OF assms(1), of "snd call"] show ?thesis by auto
next
  case (AtExecute f)
  with assms(3) have "f = RegistryFunc (HelperFunc d i)" by simp
  with AtExecute show ?thesis by (simp add: helper_func_native [OF assms(2)])
next
  case (Returned r)
  then show ?thesis by simp
qed (use assms(3) in simp_all)

lemma native_calls_never_build:
  fixes w :: "('v, 'f) build_world"
  assumes "pm_plugins env ident = Some (parameters, RegistryFunc (HelperFunc d i))"
    and "i \<in> set native_ids"
  shows "snd (run_schedule env schedule (calls_for ident paramss w)) = w"
proof -
  let ?I = "\<lambda>c :: ((string \<times> (string \<rightharpoonup> 'v)) \<times> pc) list \<times> ('v, 'f) build_world.
      snd c = w \<and> (\<forall>cp \<in> set (fst c). fst (fst cp) = ident \<and> on_native_case d i (snd cp))"
  have "?I (run_schedule env schedule (calls_for ident paramss w))"
  proof (rule run_schedule_invariant [where I = ?I])
    show "?I (calls_for ident paramss w)" by (auto simp: calls_for_def)
  next
    fix n c
    assume a: "?I c"
    show "?I (sched_step env n c)"
    proof (cases "n < length (fst c)")
      case False
      with a show ?thesis by (simp add: sched_step_idle)
    next
      case True
      let ?call = "fst (fst c ! n)"
      let ?p = "snd (fst c ! n)"
      from a True have m: "fst ?call = ident" "on_native_case d i ?p" by simp_all
      from m(1) assms(1)
      have reg: "pm_plugins env (fst ?call) = Some (parameters, RegistryFunc (HelperFunc d i))"
        by simp
      have st: "on_native_case d i (fst (caller_step env ?call ?p (snd c)))
          \<and> snd (caller_step env ?call ?p (snd c)) = snd c"
        by (rule caller_step_native [OF reg assms(2) m(2)])
      have "set ((fst c)[n := (?call, fst (caller_step env ?call ?p (snd c)))])
          \<subseteq> insert (?call, fst (caller_step env ?call ?p (snd c))) (set (fst c))"
        by (rule set_update_subset_insert)
      with a st m(1) True show ?thesis
        by (auto simp: sched_step_def)
    qed
  qed
  then show ?thesis by simp
qed

lemma ping_calls_never_build:
  "builds (snd (run_schedule ping_env schedule
      (calls_for ''ping'' [host_params, no_params, host_params] unbuilt_world))) = 0"
proof -
  have "pm_plugins ping_env ''ping'' =
      Some ([host_parameter], RegistryFunc (HelperFunc ''app/plugins/plugins/ping'' ''ping''))"
    by (simp add: ping_env_def)
  moreover have "''ping'' \<in> set native_ids"
    by code_simp
  ultimately have "snd (run_schedule ping_env schedule
      (calls_for ''ping'' [host_params, no_params, host_params] unbuilt_world)) = unbuilt_world"
    by (rule native_calls_never_build)
  then show ?thesis by (simp add: unbuilt_world_def)
qed

lemma ping_calls_return:
  "positions (run_schedule ping_env [0, 1, 0, 1]
      (calls_for ''ping'' [host_params, no_params] unbuilt_world)) =
     [Returned (NativeResult ''ping''),
      Returned (ReturnedError ''missing required parameter: host'')]"
  by code_simp

text \<open>\<^verbatim>\<open>executeSubnetCalculator\<close> tests and builds like the \<^verbatim>\<open>default\<close> branch: two
  calls that both find no artifact invoke the build command twice. With nothing in the
  registry to fall back on, each returns the error of the registry.\<close>

lemma subnet_calculator_calls_build_twice:
  "builds (snd (run_schedule subnet_env one_after_the_other
      (calls_for ''subnet_calculator'' [no_params, no_params] subnet_world))) = 2
   \<and> positions (run_schedule subnet_env one_after_the_other
      (calls_for ''subnet_calculator'' [no_params, no_params] subnet_world)) =
       [Returned (ReturnedError (''subnet_calculator plugin not registered and couldn't build ''
          @ ''dynamic plugin: plugin function not found: subnet_calculator'')),
        Returned (ReturnedError (''subnet_calculator plugin not registered and couldn't build ''
          @ ''dynamic plugin: plugin function not found: subnet_calculator''))]"
  by code_simp

subsection \<open>The definition of a dynamic plugin\<close>

lemma GetDefinition_fresh:
  assumes "definition_ptr p = None"
  shows "fst (GetDefinition env p) = staged_definition env (pluginDir p) (pluginID p)"
  using assms
  by (auto simp: GetDefinition_def GetDefinition_command_def staged_definition_def
      error_definition_def Let_def split: prod.splits option.splits sum.splits)

lemma GetDefinition_cached:
  assumes "definition_ptr p = Some cached"
  shows "GetDefinition env p = (cached, p)"
  using assms by (simp add: GetDefinition_def)

lemma GetDefinition_keeps_identity:
  "pluginID (snd (GetDefinition env p)) = pluginID p
   \<and> pluginDir (snd (GetDefinition env p)) = pluginDir p"
  by (auto simp: GetDefinition_def GetDefinition_command_def
      split: prod.splits option.splits sum.splits)

lemma GetDefinition_cache_consistent:
  assumes "cache_consistent env p"
  shows "cache_consistent env (snd (GetDefinition env p))"
proof (cases "definition_ptr p")
  case (Some cached)
  with assms show ?thesis by (simp add: GetDefinition_cached)
next
  case None
  have "definition_ptr (snd (GetDefinition env p)) = None
        \<or> definition_ptr (snd (GetDefinition env p)) = Some (fst (GetDefinition env p))"
    using None
    by (auto simp: GetDefinition_def GetDefinition_command_def
        split: prod.splits option.splits sum.splits)
  then show ?thesis
    using GetDefinition_fresh [OF None, of env] GetDefinition_keeps_identity [of env p]
    by (auto simp: cache_consistent_def)
qed

lemma after_calls_invariant:
  assumes "cache_consistent env p"
  shows "cache_consistent env (after_calls env n p)
         \<and> pluginID (after_calls env n p) = pluginID p
         \<and> pluginDir (after_calls env n p) = pluginDir p"
  using assms
proof (induction n arbitrary: p)
  case 0
  then show ?case by simp
next
  case (Suc n)
  from Suc.prems have "cache_consistent env (snd (GetDefinition env p))"
    by (rule GetDefinition_cache_consistent)
  from Suc.IH [OF this] show ?case
    by (simp add: GetDefinition_keeps_identity)
qed

lemma GetDefinition_consistent:
  assumes "cache_consistent env p"
  shows "fst (GetDefinition env p) = staged_definition env (pluginDir p) (pluginID p)"
proof (cases "definition_ptr p")
  case None
  then show ?thesis by (rule GetDefinition_fresh)
next
  case (Some cached)
  with assms show ?thesis
    by (simp add: GetDefinition_cached cache_consistent_def)
qed

text \<open>
  Claim C3. \<^verbatim>\<open>GetDefinition\<close> is a total function that returns a definition on every
  path. A plugin with a cached definition returns it; one without returns the staged
  definition: the parsed \<^verbatim>\<open>plugin.json\<close> if the file is readable and parses, otherwise
  the parsed output of \<^verbatim>\<open>go run plugin.go --definition\<close>, and if the command fails or
  its output does not parse, the minimal definition whose description is
  \<^verbatim>\<open>Error loading plugin: \<close> or \<^verbatim>\<open>Error parsing definition: \<close> followed by the
  reason. Only parsed definitions are cached, so for a plugin made by \<^verbatim>\<open>loadPlugin\<close>
  every call, after any number of earlier calls in the same environment, returns the
  staged definition.
\<close>

theorem GetDefinition_never_without_definition:
  "fst (GetDefinition env p) =
     (case definition_ptr p of
        Some cached \<Rightarrow> cached
      | None \<Rightarrow> staged_definition env (pluginDir p) (pluginID p))
   \<and> (loadPlugin env dir ident = Inr p0
        \<longrightarrow> fst (GetDefinition env (after_calls env n p0)) = staged_definition env dir ident)"
proof (intro conjI impI)
  show "fst (GetDefinition env p) =
     (case definition_ptr p of
        Some cached \<Rightarrow> cached
      | None \<Rightarrow> staged_definition env (pluginDir p) (pluginID p))"
    by (cases "definition_ptr p") (simp_all add: GetDefinition_cached GetDefinition_fresh)
next
  assume "loadPlugin env dir ident = Inr p0"
  then have p0: "definition_ptr p0 = None" "pluginID p0 = ident" "pluginDir p0 = dir"
    by (auto simp: loadPlugin_def split: if_splits)
  then have "cache_consistent env p0"
    by (simp add: cache_consistent_def)
  from after_calls_invariant [OF this, of n] GetDefinition_consistent [of env "after_calls env n p0"]
  show "fst (GetDefinition env (after_calls env n p0)) = staged_definition env dir ident"
    using p0 by simp
qed

theorem GetDefinition_never_without_definition_witness:
  "loadPlugin broken_env ''plugins/x'' ''x'' =
     Inr \<lparr> pluginID = ''x'', pluginDir = ''plugins/x'', definition_ptr = None,
           isIterable = False \<rparr>
   \<and> fst (GetDefinition broken_env (after_calls broken_env 2
        \<lparr> pluginID = ''x'', pluginDir = ''plugins/x'', definition_ptr = None,
          isIterable = False \<rparr>)) =
     error_definition ''x'' ''Error loading plugin: exit status 1''"
proof -
  have l: "loadPlugin broken_env ''plugins/x'' ''x'' =
     Inr \<lparr> pluginID = ''x'', pluginDir = ''plugins/x'', definition_ptr = None,
           isIterable = False \<rparr>"
    by (simp add: loadPlugin_def broken_env_def)
  have s: "staged_definition broken_env ''plugins/x'' ''x'' =
     error_definition ''x'' ''Error loading plugin: exit status 1''"
    by (simp add: staged_definition_def broken_env_def error_definition_def)
  let ?p0 = "\<lparr> pluginID = ''x'', pluginDir = ''plugins/x'', definition_ptr = None,
          isIterable = False \<rparr> :: (string, real) DynamicPlugin"
  have "loadPlugin broken_env ''plugins/x'' ''x'' = Inr ?p0
        \<longrightarrow> fst (GetDefinition broken_env (after_calls broken_env 2 ?p0)) =
            staged_definition broken_env ''plugins/x'' ''x''"
    using GetDefinition_never_without_definition
      [of broken_env ?p0 "''plugins/x''" "''x''" ?p0 2]
    by (rule conjunct2)
  with l s show ?thesis by simp
qed

subsection \<open>Discovery\<close>

lemma warn_mismatch_registry:
  "registry (warn_mismatch a b st) = registry st"
  by (simp add: warn_mismatch_def)

lemma LoadPlugins_register_registry:
  "\<exists>f. registry (LoadPlugins_register env pluginDir' entryName pluginDef st) =
       (registry st)(PluginDefinition.ID pluginDef \<mapsto> f)"
proof (cases "PluginDefinition.ID pluginDef = ''dns_lookup''")
  case True
  have "registry (LoadPlugins_register env pluginDir' entryName pluginDef st) =
      (registry st)(PluginDefinition.ID pluginDef \<mapsto>
         WrapperFunc pluginDir' (PluginDefinition.ID pluginDef))"
    by (simp only: LoadPlugins_register_def Let_def True)
       (simp add: warn_mismatch_registry)
  then show ?thesis by blast
next
  case False
  show ?thesis
  proof (cases "LoadPluginFunc env
      ((registry st)(PluginDefinition.ID pluginDef \<mapsto>
         WrapperFunc pluginDir' (PluginDefinition.ID pluginDef)))
      pluginDir' (PluginDefinition.ID pluginDef)")
    case (Inl err)
    have "registry (LoadPlugins_register env pluginDir' entryName pluginDef st) =
        (registry st)(PluginDefinition.ID pluginDef \<mapsto>
           WrapperFunc pluginDir' (PluginDefinition.ID pluginDef))"
      using False Inl by (simp add: LoadPlugins_register_def Let_def warn_mismatch_registry)
    then show ?thesis by blast
  next
    case (Inr helperFunc)
    have "registry (LoadPlugins_register env pluginDir' entryName pluginDef st) =
        (registry st)(PluginDefinition.ID pluginDef \<mapsto> helperFunc)"
      using False Inr by (simp add: LoadPlugins_register_def Let_def warn_mismatch_registry)
    then show ?thesis by blast
  qed
qed

lemma LoadPlugins_entry_dom:
  "dom (registry st) \<subseteq> dom (registry (LoadPlugins_entry env pluginsDir entry st))"
proof -
  have "\<And>d e pd. dom (registry st) \<subseteq> dom (registry (LoadPlugins_register env d e pd st))"
  proof -
    fix d e pd
    obtain f where "registry (LoadPlugins_register env d e pd st) =
        (registry st)(PluginDefinition.ID pd \<mapsto> f)"
      using LoadPlugins_register_registry by blast
    then show "dom (registry st) \<subseteq> dom (registry (LoadPlugins_register env d e pd st))"
      by auto
  qed
  then show ?thesis
    by (simp add: LoadPlugins_entry_def Let_def split: sum.splits)
qed

lemma fold_LoadPlugins_entry_dom:
  "dom (registry st) \<subseteq> dom (registry (fold (LoadPlugins_entry env pluginsDir) entries st))"
proof (induction entries arbitrary: st)
  case Nil
  then show ?case by simp
next
  case (Cons e es)
  have "dom (registry st) \<subseteq> dom (registry (LoadPlugins_entry env pluginsDir e st))"
    by (rule LoadPlugins_entry_dom)
  also have "\<dots> \<subseteq> dom (registry (fold (LoadPlugins_entry env pluginsDir) es
      (LoadPlugins_entry env pluginsDir e st)))"
    by (rule Cons.IH)
  finally show ?case by simp
qed

lemma LoadPlugins_entry_registers:
  assumes "entry_IsDir entry"
    and "\<not> IsNotExist (Stat env (Join2 env (Join2 env pluginsDir (entry_Name entry)) ''plugin.json''))"
    and "\<not> IsNotExist (Stat env (Join2 env (Join2 env pluginsDir (entry_Name entry)) ''plugin.go''))"
    and "ReadFile env (Join2 env (Join2 env pluginsDir (entry_Name entry)) ''plugin.json'') = Inr data"
    and "Unmarshal env data = Inr pluginDef"
  shows "PluginDefinition.ID pluginDef \<in> dom (registry (LoadPlugins_entry env pluginsDir entry st))"
proof -
  have "LoadPlugins_entry env pluginsDir entry st =
      LoadPlugins_register env (Join2 env pluginsDir (entry_Name entry)) (entry_Name entry)
        pluginDef st"
    using assms by (simp add: LoadPlugins_entry_def Let_def)
  moreover obtain f where "registry (LoadPlugins_register env
      (Join2 env pluginsDir (entry_Name entry)) (entry_Name entry) pluginDef st) =
        (registry st)(PluginDefinition.ID pluginDef \<mapsto> f)"
    using LoadPlugins_register_registry by blast
  ultimately show ?thesis by simp
qed

lemma fold_LoadPlugins_entry_registers:
  assumes "entry \<in> set entries"
    and "entry_IsDir entry"
    and "\<not> IsNotExist (Stat env (Join2 env (Join2 env pluginsDir (entry_Name entry)) ''plugin.json''))"
    and "\<not> IsNotExist (Stat env (Join2 env (Join2 env pluginsDir (entry_Name entry)) ''plugin.go''))"
    and "ReadFile env (Join2 env (Join2 env pluginsDir (entry_Name entry)) ''plugin.json'') = Inr data"
    and "Unmarshal env data = Inr pluginDef"
  shows "PluginDefinition.ID pluginDef
     \<in> dom (registry (fold (LoadPlugins_entry env pluginsDir) entries st))"
  using assms(1)
proof (induction entries arbitrary: st)
  case Nil
  then show ?case by simp
next
  case (Cons e es)
  show ?case
  proof (cases "entry \<in> set es")
    case True
    then show ?thesis using Cons.IH by simp
  next
    case False
    with Cons.prems have "e = entry" by simp
    then have "PluginDefinition.ID pluginDef
        \<in> dom (registry (LoadPlugins_entry env pluginsDir e st))"
      using LoadPlugins_entry_registers [OF assms(2-6)] by simp
    then show ?thesis
      using fold_LoadPlugins_entry_dom [of "LoadPlugins_entry env pluginsDir e st" env pluginsDir es]
      by auto
  qed
qed

text \<open>
  Claim C5, as amended. \<^verbatim>\<open>LoadPlugins\<close> checks no field of a parsed definition for
  emptiness: every entry of the plugins directory that is a directory, for which neither
  \<^verbatim>\<open>plugin.json\<close> nor \<^verbatim>\<open>plugin.go\<close> is reported missing, and whose
  \<^verbatim>\<open>plugin.json\<close> is read and parses, has the identifier of its parsed definition in
  the registry when \<^verbatim>\<open>LoadPlugins\<close> returns, whatever the identifier, the name and
  the description are; and \<^verbatim>\<open>LoadPlugins\<close> returns no error.
\<close>

theorem LoadPlugins_registers_without_validation:
  assumes "ReadDir env pluginsDir = Inr entries"
    and "entry \<in> set entries"
    and "entry_IsDir entry"
    and "\<not> IsNotExist (Stat env (Join2 env (Join2 env pluginsDir (entry_Name entry)) ''plugin.json''))"
    and "\<not> IsNotExist (Stat env (Join2 env (Join2 env pluginsDir (entry_Name entry)) ''plugin.go''))"
    and "ReadFile env (Join2 env (Join2 env pluginsDir (entry_Name entry)) ''plugin.json'') = Inr data"
    and "Unmarshal env data = Inr pluginDef"
  shows "fst (LoadPlugins env pluginsDir st) = None
     \<and> registry (snd (LoadPlugins env pluginsDir st)) (PluginDefinition.ID pluginDef) \<noteq> None"
  using assms(1) fold_LoadPlugins_entry_registers [OF assms(2-7)]
  by (auto simp: LoadPlugins_def Let_def)

text \<open>
  Claim C5 as stated fails: a plugin whose parsed definition has an empty name and an
  empty description is registered, and nothing is printed about it but the line that
  announces the registration.
\<close>

theorem LoadPlugins_registers_without_validation_counterexample:
  "PluginDefinition.Name nameless_definition = []
   \<and> PluginDefinition.Description nameless_definition = []
   \<and> LoadPlugins nameless_env ''plugins'' empty_load_state =
       (None,
        \<lparr> pluginExecuteFuncs = [''x'' \<mapsto> WrapperFunc ''plugins/x'' ''x''],
          registry = [''x'' \<mapsto> HelperFunc ''plugins/x'' ''x''],
          printed = [Registering ''x''] \<rparr>)"
  by (simp add: LoadPlugins_def LoadPlugins_entry_def LoadPlugins_register_def
      warn_mismatch_def LoadPluginFunc_def Let_def
      nameless_env_def nameless_definition_def empty_load_state_def)

theorem LoadPlugins_registers_without_validation_witness:
  "fst (LoadPlugins nameless_env ''plugins'' empty_load_state) = None
   \<and> registry (snd (LoadPlugins nameless_env ''plugins'' empty_load_state)) ''x'' \<noteq> None"
proof -
  have a: "ReadDir nameless_env ''plugins'' = Inr [DirEntry ''x'' True]"
    by (simp add: nameless_env_def)
  have b: "DirEntry ''x'' True \<in> set [DirEntry ''x'' True]" by simp
  have c: "entry_IsDir (DirEntry ''x'' True)" by simp
  have d: "\<not> IsNotExist (Stat nameless_env (Join2 nameless_env
      (Join2 nameless_env ''plugins'' (entry_Name (DirEntry ''x'' True))) ''plugin.json''))"
    and e: "\<not> IsNotExist (Stat nameless_env (Join2 nameless_env
      (Join2 nameless_env ''plugins'' (entry_Name (DirEntry ''x'' True))) ''plugin.go''))"
    and f: "ReadFile nameless_env (Join2 nameless_env
      (Join2 nameless_env ''plugins'' (entry_Name (DirEntry ''x'' True))) ''plugin.json'') =
        Inr ''manifest of x''"
    and g: "Unmarshal nameless_env ''manifest of x'' = Inr nameless_definition"
    by (simp_all add: nameless_env_def)
  have h: "PluginDefinition.ID nameless_definition = ''x''"
    by (simp add: nameless_definition_def)
  show ?thesis
    using LoadPlugins_registers_without_validation [OF a b c d e f g, of empty_load_state]
    unfolding h .
qed

subsection \<open>The iteration driver\<close>

lemma dispatched_append: "dispatched (a @ b) = dispatched a @ dispatched b"
  by (induction a rule: dispatched.induct) simp_all

lemma prompted_append: "prompted (a @ b) = prompted a @ prompted b"
  by (induction a rule: prompted.induct) simp_all

lemma printResult_quiet:
  "dispatched (fst (printResult cli env r i)) = []"
  "prompted (fst (printResult cli env r i)) = []"
  by (simp_all add: printResult_def split: sum.splits)

lemma loop_body_dispatched:
  "dispatched (observed (pass_state (loop_body cli env s))) =
     dispatched (observed s) @ [iterationCount s]"
  by (simp add: loop_body_def Let_def dispatched_append printResult_quiet)

lemma loop_body_results:
  "map IterationCount (results (pass_state (loop_body cli env s))) =
     map IterationCount (results s) @ [iterationCount s]"
  by (simp add: loop_body_def Let_def)

lemma loop_body_halt:
  "pass_halt (loop_body cli env s) =
     (if snd (snd (ExecuteIteration (Plugin cli) (Params cli) (iterationCount s))) \<noteq> None
      then Some IterationError
      else if \<not> fst (snd (ExecuteIteration (Plugin cli) (Params cli) (iterationCount s)))
      then Some NotContinuing
      else if iterationCount s + 1 > 0 \<and> (iterationCount s + 1) mod 5 = 0
              \<and> \<not> promptContinueIteration env (iterationCount s + 1)
      then Some StoppedByUser
      else None)"
  by (simp add: loop_body_def Let_def)

lemma loop_body_count:
  "iterationCount (pass_state (loop_body cli env s)) =
     (if snd (snd (ExecuteIteration (Plugin cli) (Params cli) (iterationCount s))) = None
         \<and> fst (snd (ExecuteIteration (Plugin cli) (Params cli) (iterationCount s)))
      then iterationCount s + 1 else iterationCount s)"
  by (simp add: loop_body_def Let_def)

lemma loop_body_prompted:
  "prompted (observed (pass_state (loop_body cli env s))) =
     prompted (observed s) @
     (if snd (snd (ExecuteIteration (Plugin cli) (Params cli) (iterationCount s))) = None
         \<and> fst (snd (ExecuteIteration (Plugin cli) (Params cli) (iterationCount s)))
         \<and> iterationCount s + 1 > 0 \<and> (iterationCount s + 1) mod 5 = 0
      then [iterationCount s + 1] else [])"
  by (simp add: loop_body_def Let_def prompted_append printResult_quiet)

lemma loop_body_last:
  "IterationCount (last (results (pass_state (loop_body cli env s)))) = iterationCount s
   \<and> Error (last (results (pass_state (loop_body cli env s)))) =
       (case snd (snd (ExecuteIteration (Plugin cli) (Params cli) (iterationCount s))) of
          None \<Rightarrow> [] | Some m \<Rightarrow> m)"
  by (simp add: loop_body_def Let_def)

lemma iterate_unfold:
  "iterate cli env s =
     (if MaxIterations cli > 0 \<and> iterationCount s \<ge> MaxIterations cli
      then Some (MaxIterationsReached, s)
      else
        (case pass_halt (loop_body cli env s) of
           Some reason \<Rightarrow> Some (reason, pass_state (loop_body cli env s))
         | None \<Rightarrow> iterate cli env (pass_state (loop_body cli env s))))"
  by (subst iterate.simps) (cases "loop_body cli env s"; simp)

lemma iterate_step:
  assumes "\<not> (MaxIterations cli > 0 \<and> iterationCount s \<ge> MaxIterations cli)"
  shows "iterate cli env s =
     (case pass_halt (loop_body cli env s) of
        Some reason \<Rightarrow> Some (reason, pass_state (loop_body cli env s))
      | None \<Rightarrow> iterate cli env (pass_state (loop_body cli env s)))"
  by (subst iterate_unfold, subst if_not_P [OF assms]) (rule refl)

lemma iterate_max:
  assumes "MaxIterations cli > 0" and "iterationCount s \<ge> MaxIterations cli"
  shows "iterate cli env s = Some (MaxIterationsReached, s)"
  using assms by (subst iterate_unfold) simp

lemma iterate_continuing:
  fixes cli :: "('v, 'r, 't) IterableCLI" and env :: "('r, 't) cli_env"
    and s :: "('r, 't) loop_state"
  assumes cont: "\<And>i. 0 \<le> i \<Longrightarrow> i < L \<Longrightarrow>
        fst (snd (ExecuteIteration (Plugin cli) (Params cli) i))
        \<and> snd (snd (ExecuteIteration (Plugin cli) (Params cli) i)) = None"
    and yes: "\<And>k. 0 < k \<Longrightarrow> k < L \<Longrightarrow> k mod 5 = 0 \<Longrightarrow> promptContinueIteration env k"
    and nomax: "MaxIterations cli \<le> 0 \<or> L \<le> MaxIterations cli"
    and lo: "0 \<le> iterationCount s" and hi: "iterationCount s \<le> L"
  shows "\<exists>s'. iterationCount s' = L
      \<and> dispatched (observed s') = dispatched (observed s) @ [iterationCount s..L - 1]
      \<and> map IterationCount (results s') =
          map IterationCount (results s) @ [iterationCount s..L - 1]
      \<and> prompted (observed s') =
          prompted (observed s) @ filter (\<lambda>k. k mod 5 = 0) [iterationCount s + 1..L]
      \<and> (if iterationCount s < L \<and> L mod 5 = 0 \<and> \<not> promptContinueIteration env L
         then iterate cli env s = Some (StoppedByUser, s')
         else iterate cli env s = iterate cli env s')"
  using lo hi
proof (induction "nat (L - iterationCount s)" arbitrary: s rule: less_induct)
  case less
  let ?c = "iterationCount s"
  show ?case
  proof (cases "?c = L")
    case True
    then show ?thesis
      by (intro exI [of _ s]) simp
  next
    case False
    with less.prems have lt: "?c < L" by simp
    let ?p = "loop_body cli env s"
    let ?s1 = "pass_state ?p"
    have c: "fst (snd (ExecuteIteration (Plugin cli) (Params cli) ?c))"
      "snd (snd (ExecuteIteration (Plugin cli) (Params cli) ?c)) = None"
      using cont [of ?c] less.prems lt by simp_all
    have nm: "\<not> (MaxIterations cli > 0 \<and> ?c \<ge> MaxIterations cli)"
      using nomax lt by auto
    have cnt: "iterationCount ?s1 = ?c + 1"
      using c by (simp add: loop_body_count)
    have d: "dispatched (observed ?s1) = dispatched (observed s) @ [?c]"
      by (rule loop_body_dispatched)
    have r: "map IterationCount (results ?s1) = map IterationCount (results s) @ [?c]"
      by (rule loop_body_results)
    have pr: "prompted (observed ?s1) =
        prompted (observed s) @ (if (?c + 1) mod 5 = 0 then [?c + 1] else [])"
      using c less.prems by (simp add: loop_body_prompted)
    have h: "pass_halt ?p =
        (if (?c + 1) mod 5 = 0 \<and> \<not> promptContinueIteration env (?c + 1)
         then Some StoppedByUser else None)"
      using c less.prems by (simp add: loop_body_halt)
    show ?thesis
    proof (cases "?c + 1 = L")
      case True
      have "L - 1 = ?c" using True by arith
      then have u1: "[?c..L - 1] = [?c]" by simp
      have "L = ?c + 1" using True by arith
      then have u2: "[?c + 1..L] = [?c + 1]" by simp
      have "iterate cli env s =
          (if L mod 5 = 0 \<and> \<not> promptContinueIteration env L
           then Some (StoppedByUser, ?s1) else iterate cli env ?s1)"
        using h True by (simp add: iterate_step [OF nm])
      then show ?thesis
        using cnt d r pr True lt u1 u2
        by (intro exI [of _ ?s1]) (simp del: upto.simps)
    next
      case False
      with lt have lt1: "?c + 1 < L" by simp
      have "(?c + 1) mod 5 = 0 \<Longrightarrow> promptContinueIteration env (?c + 1)"
        using yes [of "?c + 1"] less.prems lt1 by simp
      with h have "pass_halt ?p = None" by auto
      then have step: "iterate cli env s = iterate cli env ?s1"
        by (simp add: iterate_step [OF nm])
      have "nat (L - iterationCount ?s1) < nat (L - ?c)"
        using cnt lt by simp
      moreover have "0 \<le> iterationCount ?s1" "iterationCount ?s1 \<le> L"
        using cnt less.prems lt1 by simp_all
      ultimately obtain s' where s': "iterationCount s' = L"
        "dispatched (observed s') = dispatched (observed ?s1) @ [iterationCount ?s1..L - 1]"
        "map IterationCount (results s') =
           map IterationCount (results ?s1) @ [iterationCount ?s1..L - 1]"
        "prompted (observed s') =
           prompted (observed ?s1) @ filter (\<lambda>k. k mod 5 = 0) [iterationCount ?s1 + 1..L]"
        "if iterationCount ?s1 < L \<and> L mod 5 = 0 \<and> \<not> promptContinueIteration env L
         then iterate cli env ?s1 = Some (StoppedByUser, s')
         else iterate cli env ?s1 = iterate cli env s'"
        using less.hyps [of ?s1] by blast
      have u1: "[?c..L - 1] = ?c # [?c + 1..L - 1]"
        using lt1 by (simp add: upto_rec1)
      have u2: "[?c + 1..L] = (?c + 1) # [?c + 1 + 1..L]"
        using lt1 by (simp add: upto_rec1)
      show ?thesis
        using s' step cnt d r pr lt lt1 u1 u2
        by (intro exI [of _ s']) (simp del: upto.simps)
    qed
  qed
qed

lemma iterate_error:
  fixes cli :: "('v, 'r, 't) IterableCLI" and env :: "('r, 't) cli_env"
    and s :: "('r, 't) loop_state"
  assumes err: "snd (snd (ExecuteIteration (Plugin cli) (Params cli) n)) = Some msg"
    and hi: "iterationCount s \<le> n"
  shows "\<exists>reason s' k. iterate cli env s = Some (reason, s')
      \<and> iterationCount s \<le> k \<and> k \<le> n + 1
      \<and> dispatched (observed s') = dispatched (observed s) @ [iterationCount s..k - 1]
      \<and> map IterationCount (results s') =
          map IterationCount (results s) @ [iterationCount s..k - 1]
      \<and> (k = n + 1 \<longrightarrow> reason = IterationError \<and> Error (last (results s')) = msg)"
  using hi
proof (induction "nat (n - iterationCount s)" arbitrary: s rule: less_induct)
  case less
  let ?c = "iterationCount s"
  let ?p = "loop_body cli env s"
  let ?s1 = "pass_state ?p"
  show ?case
  proof (cases "MaxIterations cli > 0 \<and> ?c \<ge> MaxIterations cli")
    case True
    then have "iterate cli env s = Some (MaxIterationsReached, s)"
      by (simp add: iterate_max)
    then show ?thesis
      using less.prems by (intro exI [of _ MaxIterationsReached] exI [of _ s] exI [of _ ?c]) simp
  next
    case False
    note step = iterate_step [OF False, of env]
    have d: "dispatched (observed ?s1) = dispatched (observed s) @ [?c]"
      by (rule loop_body_dispatched)
    have r: "map IterationCount (results ?s1) = map IterationCount (results s) @ [?c]"
      by (rule loop_body_results)
    show ?thesis
    proof (cases "pass_halt ?p")
      case (Some reason)
      then have it: "iterate cli env s = Some (reason, ?s1)"
        by (simp add: step)
      have "?c = n \<Longrightarrow> reason = IterationError \<and> Error (last (results ?s1)) = msg"
        using Some err by (simp add: loop_body_halt loop_body_last)
      moreover have "[?c..?c + 1 - 1] = [?c]" by simp
      ultimately show ?thesis
        using it d r less.prems
        by (intro exI [of _ reason] exI [of _ ?s1] exI [of _ "?c + 1"]) (simp del: upto.simps)
    next
      case None
      then have it: "iterate cli env s = iterate cli env ?s1"
        by (simp add: step)
      from None have c: "snd (snd (ExecuteIteration (Plugin cli) (Params cli) ?c)) = None"
        "fst (snd (ExecuteIteration (Plugin cli) (Params cli) ?c))"
        by (auto simp: loop_body_halt split: if_splits)
      with err have "?c \<noteq> n" by auto
      with less.prems have lt: "?c < n" by simp
      have cnt: "iterationCount ?s1 = ?c + 1"
        using c by (simp add: loop_body_count)
      have "nat (n - iterationCount ?s1) < nat (n - ?c)" "iterationCount ?s1 \<le> n"
        using cnt lt by simp_all
      then obtain reason s' k where k: "iterate cli env ?s1 = Some (reason, s')"
        "iterationCount ?s1 \<le> k" "k \<le> n + 1"
        "dispatched (observed s') = dispatched (observed ?s1) @ [iterationCount ?s1..k - 1]"
        "map IterationCount (results s') =
           map IterationCount (results ?s1) @ [iterationCount ?s1..k - 1]"
        "k = n + 1 \<longrightarrow> reason = IterationError \<and> Error (last (results s')) = msg"
        using less.hyps [of ?s1] by blast
      have u: "[?c..k - 1] = ?c # [?c + 1..k - 1]"
        using k(2) cnt by (simp add: upto_rec1)
      show ?thesis
        using k it cnt d r u
        by (intro exI [of _ reason] exI [of _ s'] exI [of _ k]) (simp del: upto.simps)
    qed
  qed
qed

lemma typing_env_simps:
  "TimeNow (typing_env l) = (\<lambda>i. i)"
  "MarshalIndent (typing_env l) = Inr"
  "MarshalLine (typing_env l) = (\<lambda>i. Inr)"
  by (simp_all add: typing_env_def)

lemma TrimSpace_line_no: "TrimSpace (ToLower line_no) = ''n''"
  by code_simp

lemma TrimSpace_line_yes: "TrimSpace (ToLower line_yes) = ''y''"
  by code_simp

lemma prompt_line_no: "\<not> promptContinueIteration (typing_env line_no) k"
  by (simp add: promptContinueIteration_def typing_env_def TrimSpace_line_no)

lemma prompt_line_yes: "promptContinueIteration (typing_env line_yes) k"
  by (simp add: promptContinueIteration_def typing_env_def TrimSpace_line_yes)

text \<open>A line that ends in white space outside ASCII is trimmed like any other: \<^verbatim>\<open>y\<close>, a
  no-break space (U+00A0) and the line feed answer yes, and so do an ideographic space
  (U+3000) before \<^verbatim>\<open>YES\<close> and a carriage return after it.\<close>

lemma TrimSpace_no_break_space:
  "TrimSpace (ToLower [CHR ''y'', CHR 0xC2, CHR 0xA0, CHR 0x0A]) = ''y''"
  by code_simp

lemma prompt_no_break_space:
  "promptContinueIteration (typing_env [CHR ''y'', CHR 0xC2, CHR 0xA0, CHR 0x0A]) k"
  by (simp add: promptContinueIteration_def typing_env_def TrimSpace_no_break_space)

lemma TrimSpace_ideographic_space:
  "TrimSpace (ToLower [CHR 0xE3, CHR 0x80, CHR 0x80, CHR ''Y'', CHR ''E'', CHR ''S'',
      CHR 0x0D, CHR 0x0A]) = ''yes''"
  by code_simp

lemma always_continue_simps:
  "SupportsIteration always_continue"
  "ExecuteIteration always_continue params i = (''again'', True, None)"
  by (simp_all add: always_continue_def)

lemma continuing_cli_simps:
  "Plugin (continuing_cli K mode) = always_continue"
  "MaxIterations (continuing_cli K mode) = K"
  "RunInTerminal (continuing_cli K mode) = mode"
  "Params (continuing_cli K mode) = Map.empty"
  "IterationDelay (continuing_cli K mode) = 0"
  by (simp_all add: continuing_cli_def)

text \<open>
  Claim C6, as amended. For a driver with a maximum \<open>K > 0\<close> over a plugin that
  supports iteration and whose entry point returns continuation true and no error at
  every count below \<open>K\<close>: if the operator answers yes at every checkpoint (every
  positive multiple of five) below \<open>K\<close>, the run returns after exactly \<open>K\<close> calls of
  the entry point, with the counts \<open>0, \<dots>, K - 1\<close> in order, and \<open>K\<close> results recorded
  in that order; the count \<open>K\<close> is never dispatched, the bound being checked before each
  call. If instead \<open>j < K\<close> is the first checkpoint at which the operator does not answer
  yes, the run returns after exactly \<open>j\<close> iterations, stopped by the operator.
\<close>

theorem Run_max_iterations:
  fixes cli :: "('v, 'r, 't) IterableCLI" and env :: "('r, 't) cli_env"
  assumes sup: "SupportsIteration (Plugin cli)"
    and pos: "0 < MaxIterations cli"
    and cont: "\<forall>i. 0 \<le> i \<and> i < MaxIterations cli \<longrightarrow>
        fst (snd (ExecuteIteration (Plugin cli) (Params cli) i))
        \<and> snd (snd (ExecuteIteration (Plugin cli) (Params cli) i)) = None"
  shows "((\<forall>k. 0 < k \<and> k < MaxIterations cli \<and> k mod 5 = 0 \<longrightarrow> promptContinueIteration env k)
          \<longrightarrow> (\<exists>r. Run cli env = Some r
                \<and> length (Results (driver r)) = nat (MaxIterations cli)
                \<and> map IterationCount (Results (driver r)) = [0..MaxIterations cli - 1]
                \<and> dispatched (events r) = [0..MaxIterations cli - 1]
                \<and> (ended r = Some MaxIterationsReached \<or> ended r = Some StoppedByUser)))
       \<and> (\<forall>j. 0 < j \<and> j < MaxIterations cli \<and> j mod 5 = 0
              \<and> \<not> promptContinueIteration env j
              \<and> (\<forall>k. 0 < k \<and> k < j \<and> k mod 5 = 0 \<longrightarrow> promptContinueIteration env k)
          \<longrightarrow> (\<exists>r. Run cli env = Some r
                \<and> map IterationCount (Results (driver r)) = [0..j - 1]
                \<and> dispatched (events r) = [0..j - 1]
                \<and> ended r = Some StoppedByUser))"
proof (intro conjI allI impI)
  let ?K = "MaxIterations cli"
  let ?s0 = "\<lparr> iterationCount = 0, results = [], observed = [] \<rparr> :: ('r, 't) loop_state"
  assume yes: "\<forall>k. 0 < k \<and> k < ?K \<and> k mod 5 = 0 \<longrightarrow> promptContinueIteration env k"
  from iterate_continuing [of ?K cli env ?s0] cont yes pos
  obtain s' where s': "iterationCount s' = ?K"
    "dispatched (observed s') = [0..?K - 1]"
    "map IterationCount (results s') = [0..?K - 1]"
    "if ?K mod 5 = 0 \<and> \<not> promptContinueIteration env ?K
     then iterate cli env ?s0 = Some (StoppedByUser, s')
     else iterate cli env ?s0 = iterate cli env s'"
    by auto
  have "iterate cli env s' = Some (MaxIterationsReached, s')"
    using pos s'(1) by (simp add: iterate_max)
  with s'(4) obtain reason where reason: "iterate cli env ?s0 = Some (reason, s')"
    "reason = MaxIterationsReached \<or> reason = StoppedByUser"
    by (auto split: if_splits)
  let ?r = "\<lparr> returned = None, driver = cli\<lparr> Results := results s' \<rparr>,
             events = observed s', ended = Some reason \<rparr>"
  have run: "Run cli env = Some ?r"
    using sup reason(1) by (simp add: Run_def)
  have "length (map IterationCount (results s')) = nat ?K"
    using pos by (simp only: s'(3) length_upto)
  then have len: "length (results s') = nat ?K" by simp
  show "\<exists>r. Run cli env = Some r
      \<and> length (Results (driver r)) = nat ?K
      \<and> map IterationCount (Results (driver r)) = [0..?K - 1]
      \<and> dispatched (events r) = [0..?K - 1]
      \<and> (ended r = Some MaxIterationsReached \<or> ended r = Some StoppedByUser)"
    using run s'(2,3) len reason(2) by (intro exI [of _ ?r]) simp
next
  fix j
  let ?s0 = "\<lparr> iterationCount = 0, results = [], observed = [] \<rparr> :: ('r, 't) loop_state"
  assume j: "0 < j \<and> j < MaxIterations cli \<and> j mod 5 = 0
      \<and> \<not> promptContinueIteration env j
      \<and> (\<forall>k. 0 < k \<and> k < j \<and> k mod 5 = 0 \<longrightarrow> promptContinueIteration env k)"
  from iterate_continuing [of j cli env ?s0] cont j
  obtain s' where s': "dispatched (observed s') = [0..j - 1]"
    "map IterationCount (results s') = [0..j - 1]"
    "iterate cli env ?s0 = Some (StoppedByUser, s')"
    by auto
  let ?r = "\<lparr> returned = None, driver = cli\<lparr> Results := results s' \<rparr>,
             events = observed s', ended = Some StoppedByUser \<rparr>"
  have "Run cli env = Some ?r"
    using sup s'(3) by (simp add: Run_def)
  then show "\<exists>r. Run cli env = Some r
      \<and> map IterationCount (Results (driver r)) = [0..j - 1]
      \<and> dispatched (events r) = [0..j - 1]
      \<and> ended r = Some StoppedByUser"
    using s'(1,2) by (intro exI [of _ ?r]) simp
qed

text \<open>
  Claim C6 as stated fails: with a maximum of ten, a plugin that always continues and an
  operator who answers \<^verbatim>\<open>n\<close> at the first checkpoint, the run ends after five
  iterations with five results.
\<close>

theorem Run_max_iterations_counterexample:
  "map_option run_summary (Run (continuing_cli 10 True) (typing_env line_no)) =
     Some ([0, 1, 2, 3, 4], [0, 1, 2, 3, 4], [5], Some StoppedByUser)"
  by (simp add: Run_def run_summary_def continuing_cli_simps always_continue_simps
      iterate.simps loop_body_def Let_def printResult_def prompt_line_no typing_env_simps)

theorem Run_max_iterations_witness:
  "(\<exists>r. Run (continuing_cli 7 True) (typing_env line_yes) = Some r
       \<and> length (Results (driver r)) = 7
       \<and> map IterationCount (Results (driver r)) = [0, 1, 2, 3, 4, 5, 6]
       \<and> dispatched (events r) = [0, 1, 2, 3, 4, 5, 6])
   \<and> (\<exists>r. Run (continuing_cli 7 True) (typing_env line_no) = Some r
       \<and> map IterationCount (Results (driver r)) = [0, 1, 2, 3, 4]
       \<and> dispatched (events r) = [0, 1, 2, 3, 4]
       \<and> ended r = Some StoppedByUser)"
proof -
  let ?cli = "continuing_cli 7 True"
  have u: "[0..7 - 1] = [0, 1, 2, 3, 4, 5, 6 :: int]" "[0..5 - 1] = [0, 1, 2, 3, 4 :: int]"
    by (simp_all add: upto_rec1)
  have m: "MaxIterations ?cli = 7"
    by (simp add: continuing_cli_simps)
  have a: "SupportsIteration (Plugin ?cli)"
    and b: "0 < MaxIterations ?cli"
    and c: "\<forall>i. 0 \<le> i \<and> i < MaxIterations ?cli \<longrightarrow>
        fst (snd (ExecuteIteration (Plugin ?cli) (Params ?cli) i))
        \<and> snd (snd (ExecuteIteration (Plugin ?cli) (Params ?cli) i)) = None"
    by (simp_all add: continuing_cli_simps always_continue_simps)
  have yes: "\<forall>k. 0 < k \<and> k < MaxIterations ?cli \<and> k mod 5 = 0
      \<longrightarrow> promptContinueIteration (typing_env line_yes) k"
    by (simp add: prompt_line_yes)
  have no: "0 < (5::int) \<and> 5 < MaxIterations ?cli \<and> (5::int) mod 5 = 0
      \<and> \<not> promptContinueIteration (typing_env line_no) 5
      \<and> (\<forall>k. 0 < k \<and> k < 5 \<and> k mod 5 = 0 \<longrightarrow> promptContinueIteration (typing_env line_no) k)"
    by (simp add: prompt_line_no m)
  have first: "\<exists>r. Run ?cli (typing_env line_yes) = Some r
       \<and> length (Results (driver r)) = nat (MaxIterations ?cli)
       \<and> map IterationCount (Results (driver r)) = [0..MaxIterations ?cli - 1]
       \<and> dispatched (events r) = [0..MaxIterations ?cli - 1]
       \<and> (ended r = Some MaxIterationsReached \<or> ended r = Some StoppedByUser)"
    using Run_max_iterations [OF a b c, of "typing_env line_yes", THEN conjunct1] yes
    by (rule mp)
  have second: "\<exists>r. Run ?cli (typing_env line_no) = Some r
       \<and> map IterationCount (Results (driver r)) = [0..5 - 1]
       \<and> dispatched (events r) = [0..5 - 1]
       \<and> ended r = Some StoppedByUser"
    using Run_max_iterations [OF a b c, of "typing_env line_no", THEN conjunct2, THEN spec,
        of 5] no
    by (rule mp)
  from first obtain r1 where r1: "Run ?cli (typing_env line_yes) = Some r1
       \<and> length (Results (driver r1)) = nat (MaxIterations ?cli)
       \<and> map IterationCount (Results (driver r1)) = [0..MaxIterations ?cli - 1]
       \<and> dispatched (events r1) = [0..MaxIterations ?cli - 1]
       \<and> (ended r1 = Some MaxIterationsReached \<or> ended r1 = Some StoppedByUser)" ..
  have A: "\<exists>r. Run ?cli (typing_env line_yes) = Some r
       \<and> length (Results (driver r)) = 7
       \<and> map IterationCount (Results (driver r)) = [0, 1, 2, 3, 4, 5, 6]
       \<and> dispatched (events r) = [0, 1, 2, 3, 4, 5, 6]"
    using r1 [unfolded m u] by (intro exI [of _ r1]) simp
  from second obtain r2 where r2: "Run ?cli (typing_env line_no) = Some r2
       \<and> map IterationCount (Results (driver r2)) = [0..5 - 1]
       \<and> dispatched (events r2) = [0..5 - 1]
       \<and> ended r2 = Some StoppedByUser" ..
  have B: "\<exists>r. Run ?cli (typing_env line_no) = Some r
       \<and> map IterationCount (Results (driver r)) = [0, 1, 2, 3, 4]
       \<and> dispatched (events r) = [0, 1, 2, 3, 4]
       \<and> ended r = Some StoppedByUser"
    using r2 [unfolded u] by (intro exI [of _ r2]) simp
  from A B show ?thesis by (rule conjI)
qed

text \<open>
  Claim C7. If the iteration entry point returns a non-nil error at count \<open>n\<close>, every
  run of a plugin that supports iteration returns, the calls of the entry point are those
  with the counts \<open>0, \<dots>, k - 1\<close> for some \<open>k \<le> n + 1\<close>, each once and in order, and
  the results recorded are those of the same counts: nothing is dispatched or recorded
  after iteration \<open>n\<close>, and it is not called again. If iteration \<open>n\<close> is reached, it is
  the last one, the loop is left by the \<^verbatim>\<open>break\<close> for errors, and its result carries the
  error text.
\<close>

theorem Run_error_is_last_iteration:
  fixes cli :: "('v, 'r, 't) IterableCLI" and env :: "('r, 't) cli_env"
  assumes "SupportsIteration (Plugin cli)"
    and "0 \<le> n"
    and "snd (snd (ExecuteIteration (Plugin cli) (Params cli) n)) = Some msg"
  shows "\<exists>r k. Run cli env = Some r \<and> 0 \<le> k \<and> k \<le> n + 1
      \<and> dispatched (events r) = [0..k - 1]
      \<and> map IterationCount (Results (driver r)) = [0..k - 1]
      \<and> (k = n + 1 \<longrightarrow> ended r = Some IterationError
            \<and> Error (last (Results (driver r))) = msg)"
proof -
  let ?s0 = "\<lparr> iterationCount = 0, results = [], observed = [] \<rparr> :: ('r, 't) loop_state"
  from iterate_error [OF assms(3), of ?s0 env] assms(2)
  obtain reason s' k where k: "iterate cli env ?s0 = Some (reason, s')"
    "0 \<le> k" "k \<le> n + 1"
    "dispatched (observed s') = [0..k - 1]"
    "map IterationCount (results s') = [0..k - 1]"
    "k = n + 1 \<longrightarrow> reason = IterationError \<and> Error (last (results s')) = msg"
    by auto
  let ?r = "\<lparr> returned = None, driver = cli\<lparr> Results := results s' \<rparr>,
             events = observed s', ended = Some reason \<rparr>"
  have "Run cli env = Some ?r"
    using assms(1) k(1) by (simp add: Run_def)
  then show ?thesis
    using k by (intro exI [of _ ?r] exI [of _ k]) simp
qed

theorem Run_error_is_last_iteration_witness:
  "(\<exists>r k. Run failing_cli (typing_env line_yes) = Some r \<and> 0 \<le> k \<and> k \<le> 2 + 1
      \<and> dispatched (events r) = [0..k - 1]
      \<and> map IterationCount (Results (driver r)) = [0..k - 1]
      \<and> (k = 2 + 1 \<longrightarrow> ended r = Some IterationError
            \<and> Error (last (Results (driver r))) = ''timeout''))
   \<and> map_option (\<lambda>r. (dispatched (events r), map Error (Results (driver r)), ended r))
       (Run failing_cli (typing_env line_yes)) =
     Some ([0, 1, 2], [[], [], ''timeout''], Some IterationError)"
proof -
  have a: "SupportsIteration (Plugin failing_cli)"
    and b: "snd (snd (ExecuteIteration (Plugin failing_cli) (Params failing_cli) 2)) =
        Some ''timeout''"
    by (simp_all add: failing_cli_def failing_third_def)
  have c: "(0::int) \<le> 2" by simp
  note first = Run_error_is_last_iteration [OF a c b, of "typing_env line_yes"]
  have second: "map_option (\<lambda>r. (dispatched (events r), map Error (Results (driver r)), ended r))
       (Run failing_cli (typing_env line_yes)) =
     Some ([0, 1, 2], [[], [], ''timeout''], Some IterationError)"
    by (simp add: Run_def failing_cli_def failing_third_def iterate.simps
        loop_body_def Let_def printResult_def typing_env_simps)
  from first second show ?thesis by (rule conjI)
qed

text \<open>
  Claim C8, as amended. In every mode, whatever \<^verbatim>\<open>RunInTerminal\<close> is set to: if the
  plugin supports iteration and continues without error below \<open>j\<close>, a positive multiple
  of five within the maximum, and the operator answers yes at the multiples of five below
  \<open>j\<close> but not at \<open>j\<close> (a negative answer or a failed read), then the run asks at every
  multiple of five up to \<open>j\<close> and returns after \<open>j\<close> iterations, stopped by the operator.
\<close>

theorem Run_prompts_in_every_mode:
  fixes cli :: "('v, 'r, 't) IterableCLI" and env :: "('r, 't) cli_env"
  assumes sup: "SupportsIteration (Plugin cli)"
    and nomax: "MaxIterations cli \<le> 0 \<or> j \<le> MaxIterations cli"
    and cont: "\<forall>i. 0 \<le> i \<and> i < j \<longrightarrow>
        fst (snd (ExecuteIteration (Plugin cli) (Params cli) i))
        \<and> snd (snd (ExecuteIteration (Plugin cli) (Params cli) i)) = None"
    and j: "0 < j" "j mod 5 = 0"
    and no: "\<not> promptContinueIteration env j"
    and yes: "\<forall>k. 0 < k \<and> k < j \<and> k mod 5 = 0 \<longrightarrow> promptContinueIteration env k"
  shows "\<exists>r. Run (cli\<lparr> RunInTerminal := mode \<rparr>) env = Some r
      \<and> ended r = Some StoppedByUser
      \<and> prompted (events r) = filter (\<lambda>k. k mod 5 = 0) [1..j]
      \<and> map IterationCount (Results (driver r)) = [0..j - 1]
      \<and> dispatched (events r) = [0..j - 1]"
proof -
  let ?cli = "cli\<lparr> RunInTerminal := mode \<rparr>"
  let ?s0 = "\<lparr> iterationCount = 0, results = [], observed = [] \<rparr> :: ('r, 't) loop_state"
  from iterate_continuing [of j ?cli env ?s0] cont yes nomax j no
  obtain s' where s': "dispatched (observed s') = [0..j - 1]"
    "map IterationCount (results s') = [0..j - 1]"
    "prompted (observed s') = filter (\<lambda>k. k mod 5 = 0) [1..j]"
    "iterate ?cli env ?s0 = Some (StoppedByUser, s')"
    by auto
  let ?r = "\<lparr> returned = None, driver = ?cli\<lparr> Results := results s' \<rparr>,
             events = observed s', ended = Some StoppedByUser \<rparr>"
  have "Run ?cli env = Some ?r"
    using sup s'(4) by (simp add: Run_def)
  then show ?thesis
    using s'(1,2,3) by (intro exI [of _ ?r]) simp
qed

text \<open>
  Claim C8 as stated fails: with \<^verbatim>\<open>RunInTerminal\<close> false, no maximum and a plugin that
  always continues, the prompt is reached after five iterations, and the answer \<^verbatim>\<open>n\<close>
  ends the run there.
\<close>

theorem Run_prompts_in_every_mode_counterexample:
  "RunInTerminal (continuing_cli 0 False) = False
   \<and> map_option run_summary (Run (continuing_cli 0 False) (typing_env line_no)) =
       Some ([0, 1, 2, 3, 4], [0, 1, 2, 3, 4], [5], Some StoppedByUser)"
  by (simp add: Run_def run_summary_def continuing_cli_simps always_continue_simps
      iterate.simps loop_body_def Let_def printResult_def prompt_line_no typing_env_simps)

theorem Run_prompts_in_every_mode_witness:
  "\<exists>r. Run ((continuing_cli 0 True)\<lparr> RunInTerminal := False \<rparr>) (typing_env line_no) = Some r
      \<and> ended r = Some StoppedByUser
      \<and> prompted (events r) = [5]
      \<and> map IterationCount (Results (driver r)) = [0, 1, 2, 3, 4]
      \<and> dispatched (events r) = [0, 1, 2, 3, 4]"
proof -
  let ?cli = "continuing_cli 0 True"
  have u: "[0..5 - 1] = [0, 1, 2, 3, 4 :: int]"
    "filter (\<lambda>k. k mod 5 = 0) [1..5] = [5 :: int]"
    by (simp_all add: upto_rec1)
  have a: "SupportsIteration (Plugin ?cli)"
    and b: "MaxIterations ?cli \<le> 0 \<or> 5 \<le> MaxIterations ?cli"
    and c: "\<forall>i. 0 \<le> i \<and> i < 5 \<longrightarrow>
        fst (snd (ExecuteIteration (Plugin ?cli) (Params ?cli) i))
        \<and> snd (snd (ExecuteIteration (Plugin ?cli) (Params ?cli) i)) = None"
    by (simp_all add: continuing_cli_simps always_continue_simps)
  have d: "(0::int) < 5" "(5::int) mod 5 = 0" by simp_all
  have e: "\<not> promptContinueIteration (typing_env line_no) 5"
    by (rule prompt_line_no)
  have f: "\<forall>k. 0 < k \<and> k < 5 \<and> k mod 5 = 0 \<longrightarrow> promptContinueIteration (typing_env line_no) k"
    by (simp add: prompt_line_no)
  show ?thesis
    using Run_prompts_in_every_mode [OF a b c d e f, of False]
    unfolding u .
qed

subsection \<open>The bandwidth test\<close>









end
